theory Spec2Isabelle
  imports Complex_Main
begin

section \<open>Values handed to the framework\<close>

text \<open>
  The example builders of \<^verbatim>\<open>tessif_examples\<close> assemble keyword configurations out of
  Python numbers, strings, booleans, named tuples (\<^verbatim>\<open>MinMax\<close>, \<^verbatim>\<open>OnOff\<close>), numpy arrays and
  dictionaries. A number is a rational, one of the two infinities or not-a-number. The
  float64 arithmetic of numpy is not fixed here: the one operation the builders use is a
  parameter (see \<open>libraries\<close> below).
\<close>

datatype number = Num rat | PInf | NInf | NaN

datatype val =
    VNone
  | VBool bool
  | VNum number
  | VStr string
  | VMinMax val val
  | VOnOff val val
  | VArr "number list"
  | VDict "(string \<times> val) list"
  | VAnnuity rat nat rat

text \<open>
  \<^verbatim>\<open>VAnnuity capex n wacc\<close> stands for the number \<^verbatim>\<open>economics.annuity(capex, n, wacc)\<close>
  of the oemof library returns; it is stored, never computed with.
\<close>

type_synonym kwargs = "(string \<times> val) list"

datatype error =
    ConfigurationError
  | ResolutionError
  | DataShapeError
  | IOError
  | ValueError
  | KeyError
  | OverflowError
  | IndexError

definition bnd :: "error + 'a \<Rightarrow> ('a \<Rightarrow> error + 'b) \<Rightarrow> error + 'b" where
  "bnd m f = (case m of Inl e \<Rightarrow> Inl e | Inr x \<Rightarrow> f x)"

section \<open>Component records and the system container\<close>

datatype kind = KSource | KSink | KTransformer | KStorage | KBus

record component =
  kind :: kind
  name :: string
  inputs :: "string list"
  outputs :: "string list"
  conversions :: "((string \<times> string) \<times> number) list"
  options :: kwargs

type_synonym timestamp = "string \<times> nat"

record energy_system =
  uid :: "string option"
  busses :: "component list"
  sinks :: "component list"
  sources :: "component list"
  transformers :: "component list"
  storages :: "component list"
  timeframe :: "timestamp list"
  global_constraints :: kwargs

text \<open>
  \<^verbatim>\<open>es.nodes\<close>, in the order the docstrings of the builders print it: busses, sources,
  sinks, transformers, storages.
\<close>

definition nodes :: "energy_system \<Rightarrow> component list" where
  "nodes es = busses es @ sources es @ sinks es @ transformers es @ storages es"

section \<open>The world outside a builder\<close>

text \<open>
  A numpy array: its dtype and its values. An \<^verbatim>\<open>int64\<close> array holds integers.
\<close>

datatype dtype = Int64 | Float64

record ndarray =
  dtype :: dtype
  vals :: "number list"

text \<open>
  A CSV file as pandas parsed it: the names of its data columns (the index column apart),
  the dtype pandas gave each column, and its rows.
\<close>

record csv =
  columns :: "string list"
  dtypes :: "dtype list"
  rows :: "number list list"

text \<open>
  What a builder can read or change beyond its arguments: the files of the load profile
  directory (by file name), the objects dumped so far (directory, file name, object),
  whether the storage refuses writes, and the state of numpy's module-level random
  generator.
\<close>

record world =
  files :: "string \<Rightarrow> csv option"
  written :: "(string option \<times> string \<times> energy_system) list"
  read_only :: bool
  rng_state :: nat

section \<open>The libraries a builder calls\<close>

text \<open>
  The builders call code that is not part of the example sources: the constructors
  \<^verbatim>\<open>components.Source\<close>, \<^verbatim>\<open>Sink\<close>, \<^verbatim>\<open>Transformer\<close>, \<^verbatim>\<open>Storage\<close> and \<^verbatim>\<open>Bus\<close> of
  tessif, its container \<^verbatim>\<open>energy_system.AbstractEnergySystem\<close> with the method
  \<^verbatim>\<open>dump\<close>, and the float64 product \<^verbatim>\<open>x * (1 / m)\<close> of numpy. A builder is a function
  of them:
  \<^item> \<open>construct L k nm ins outs convs kw\<close> builds a component of kind \<open>k\<close>;
  \<^item> \<open>AbstractEnergySystem L uid busses sinks sources transformers storages timeframe
    global_constraints\<close> assembles a system;
  \<^item> \<open>dump L es directory filename w\<close> stores a system;
  \<^item> \<open>mul_recip L x m\<close> is the float64 value of \<^verbatim>\<open>x * (1 / m)\<close>.
\<close>

record libraries =
  construct ::
    "kind \<Rightarrow> string \<Rightarrow> string list \<Rightarrow> string list \<Rightarrow> ((string \<times> string) \<times> number) list \<Rightarrow>
     kwargs \<Rightarrow> error + component"
  AbstractEnergySystem ::
    "string option \<Rightarrow> component list \<Rightarrow> component list \<Rightarrow> component list \<Rightarrow>
     component list \<Rightarrow> component list \<Rightarrow> timestamp list \<Rightarrow> kwargs \<Rightarrow> error + energy_system"
  dump :: "energy_system \<Rightarrow> string option \<Rightarrow> string \<Rightarrow> world \<Rightarrow> error + world"
  mul_recip :: "number \<Rightarrow> number \<Rightarrow> number"

text \<open>
  The five constructor calls. A Source declares outputs, a Sink inputs, a Storage one
  input and one output; the inputs and outputs of a Bus are references
  \<^verbatim>\<open>"<component>.<commodity>"\<close>.
\<close>

definition Source :: "libraries \<Rightarrow> string \<Rightarrow> string list \<Rightarrow> kwargs \<Rightarrow> error + component" where
  "Source L nm outs kw = construct L KSource nm [] outs [] kw"

definition Sink :: "libraries \<Rightarrow> string \<Rightarrow> string list \<Rightarrow> kwargs \<Rightarrow> error + component" where
  "Sink L nm ins kw = construct L KSink nm ins [] [] kw"

definition Transformer ::
  "libraries \<Rightarrow> string \<Rightarrow> string list \<Rightarrow> string list \<Rightarrow> ((string \<times> string) \<times> number) list \<Rightarrow>
   kwargs \<Rightarrow> error + component" where
  "Transformer L nm ins outs convs kw = construct L KTransformer nm ins outs convs kw"

definition Storage ::
  "libraries \<Rightarrow> string \<Rightarrow> string \<Rightarrow> string \<Rightarrow> kwargs \<Rightarrow> error + component" where
  "Storage L nm inp outp kw = construct L KStorage nm [inp] [outp] [] kw"

definition Bus ::
  "libraries \<Rightarrow> string \<Rightarrow> string list \<Rightarrow> string list \<Rightarrow> kwargs \<Rightarrow> error + component" where
  "Bus L nm ins outs kw = construct L KBus nm ins outs [] kw"

subsection \<open>The framework of the specification\<close>

text \<open>
  Modelled from the spec: the constructors belong to the tessif framework, whose code is
  not part of the example sources. Section 4.1 of the specification names the
  per-commodity options below and lets every constructor fail with a ConfigurationError
  when one of them refers to a commodity that is not declared in \<^verbatim>\<open>inputs\<close>/\<^verbatim>\<open>outputs\<close>;
  a Transformer's \<^verbatim>\<open>conversions\<close> map pairs of an input and an output commodity.
  A constructor is not given the timeframe, so the length of a time series is checked by
  the system container further down. Every other keyword (region, sector, carrier,
  node_type, capacity, initial_soc, status options, unknown keywords) is stored as it is.
\<close>

definition commodity_options :: "string list" where
  "commodity_options =
     [''flow_rates'', ''flow_costs'', ''flow_emissions'', ''timeseries'',
      ''expandable'', ''expansion_costs'', ''expansion_limits'']"

fun dict_keys :: "val \<Rightarrow> string list" where
  "dict_keys (VDict kvs) = map fst kvs"
| "dict_keys _ = []"

fun dict_values :: "val \<Rightarrow> val list" where
  "dict_values (VDict kvs) = map snd kvs"
| "dict_values _ = []"

definition referenced :: "kwargs \<Rightarrow> string list" where
  "referenced kw =
     concat (map (\<lambda>kv. if fst kv \<in> set commodity_options then dict_keys (snd kv) else []) kw)"

definition make_component ::
  "kind \<Rightarrow> string \<Rightarrow> string list \<Rightarrow> string list \<Rightarrow> ((string \<times> string) \<times> number) list \<Rightarrow>
   kwargs \<Rightarrow> error + component" where
  "make_component k nm ins outs convs kw =
     (if list_ex (\<lambda>c. c \<notin> set (ins @ outs)) (referenced kw) then Inl ConfigurationError
      else if list_ex (\<lambda>cv. fst (fst cv) \<notin> set ins) convs then Inl ConfigurationError
      else if list_ex (\<lambda>cv. snd (fst cv) \<notin> set outs) convs then Inl ConfigurationError
      else Inr \<lparr>kind = k, name = nm, inputs = ins, outputs = outs,
                conversions = convs, options = kw\<rparr>)"

text \<open>A reference is split at its last dot into the component's name and the commodity.\<close>

definition split_ref :: "string \<Rightarrow> (string \<times> string) option" where
  "split_ref r =
     (if CHR ''.'' \<in> set r
      then Some (rev (tl (dropWhile (\<lambda>c. c \<noteq> CHR ''.'') (rev r))),
                 rev (takeWhile (\<lambda>c. c \<noteq> CHR ''.'') (rev r)))
      else None)"

definition resolves :: "component list \<Rightarrow> string \<Rightarrow> bool" where
  "resolves comps r =
     (case split_ref r of
        None \<Rightarrow> False
      | Some nc \<Rightarrow> list_ex (\<lambda>x. name x = fst nc \<and> snd nc \<in> set (inputs x @ outputs x)) comps)"

definition bus_refs :: "component \<Rightarrow> string list" where
  "bus_refs b = inputs b @ outputs b"

fun arrays_of :: "val \<Rightarrow> number list list" where
  "arrays_of (VArr a) = [a]"
| "arrays_of _ = []"

fun minmax_arrays :: "val \<Rightarrow> number list list" where
  "minmax_arrays (VMinMax lo hi) = arrays_of lo @ arrays_of hi"
| "minmax_arrays v = arrays_of v"

text \<open>The time series a component declares: the arrays under its \<^verbatim>\<open>timeseries\<close> option.\<close>

definition declared_series :: "component \<Rightarrow> number list list" where
  "declared_series c =
     concat (map minmax_arrays
       (concat (map (\<lambda>kv. if fst kv = ''timeseries'' then dict_values (snd kv) else [])
          (options c))))"

text \<open>
  Modelled from the spec: \<^verbatim>\<open>energy_system.AbstractEnergySystem\<close> is framework code that
  is not part of the example sources. Sections 4.2, 4.3 and 7 of the specification: the
  assembler resolves every Bus reference against the components it is given and fails
  with a ResolutionError on a dangling one; a time series whose length differs from the
  timeframe's is a DataShapeError; otherwise the components (grouped by kind), the
  timeframe and the global constraints are stored under the given uid.
\<close>

definition spec_AbstractEnergySystem ::
  "string option \<Rightarrow> component list \<Rightarrow> component list \<Rightarrow> component list \<Rightarrow> component list \<Rightarrow>
   component list \<Rightarrow> timestamp list \<Rightarrow> kwargs \<Rightarrow> error + energy_system" where
  "spec_AbstractEnergySystem u bs sk so tr st tf gc =
     (if list_ex (\<lambda>r. \<not> resolves (so @ sk @ tr @ st) r) (concat (map bus_refs bs))
      then Inl ResolutionError
      else if list_ex (\<lambda>a. length a \<noteq> length tf)
                (concat (map declared_series (bs @ so @ sk @ tr @ st)))
      then Inl DataShapeError
      else Inr \<lparr>uid = u, busses = bs, sinks = sk, sources = so, transformers = tr,
                storages = st, timeframe = tf, global_constraints = gc\<rparr>)"

text \<open>
  Modelled from the spec: \<^verbatim>\<open>AbstractEnergySystem.dump\<close> is framework code. Sections 3, 4.3
  and 7: it writes the object to a target location under a target name (the default
  directory, for \<^verbatim>\<open>directory=None\<close>, is a value of the framework), fails with an
  IOError when the write fails, and does not change the object.
\<close>

definition spec_dump :: "energy_system \<Rightarrow> string option \<Rightarrow> string \<Rightarrow> world \<Rightarrow> error + world" where
  "spec_dump es directory fname w =
     (if read_only w then Inl IOError
      else Inr (w\<lparr>written := written w @ [(directory, fname, es)]\<rparr>))"

text \<open>
  The product \<^verbatim>\<open>x * (1 / m)\<close> without rounding: a division by zero gives an infinity (and
  a warning), not an exception.
\<close>

fun frecip :: "number \<Rightarrow> number" where
  "frecip (Num r) = (if r = 0 then PInf else Num (1 / r))"
| "frecip PInf = Num 0"
| "frecip NInf = Num 0"
| "frecip NaN = NaN"

fun fmul :: "number \<Rightarrow> number \<Rightarrow> number" where
  "fmul NaN y = NaN"
| "fmul x NaN = NaN"
| "fmul (Num a) (Num b) = Num (a * b)"
| "fmul (Num a) PInf = (if 0 < a then PInf else if a < 0 then NInf else NaN)"
| "fmul (Num a) NInf = (if 0 < a then NInf else if a < 0 then PInf else NaN)"
| "fmul PInf (Num b) = (if 0 < b then PInf else if b < 0 then NInf else NaN)"
| "fmul NInf (Num b) = (if 0 < b then NInf else if b < 0 then PInf else NaN)"
| "fmul PInf PInf = PInf"
| "fmul PInf NInf = NInf"
| "fmul NInf PInf = NInf"
| "fmul NInf NInf = PInf"

definition exact_mul_recip :: "number \<Rightarrow> number \<Rightarrow> number" where
  "exact_mul_recip x m = fmul x (frecip m)"

text \<open>The framework as the specification describes it, with unrounded arithmetic.\<close>

definition tessif_spec :: libraries where
  "tessif_spec =
     \<lparr>construct = make_component, AbstractEnergySystem = spec_AbstractEnergySystem,
      dump = spec_dump, mul_recip = exact_mul_recip\<rparr>"

subsection \<open>A framework without checks\<close>

text \<open>
  A second instance of \<open>libraries\<close>, whose constructors and container store what they are
  given and check nothing; its \<^verbatim>\<open>dump\<close> is the one above. With it a builder returns
  whatever it hands to the framework, so it shows what \<^verbatim>\<open>create_hhes_ar\<close> builds and
  stores: that builder returns only with constructors that accept its heat power plant.
\<close>

definition store_component ::
  "kind \<Rightarrow> string \<Rightarrow> string list \<Rightarrow> string list \<Rightarrow> ((string \<times> string) \<times> number) list \<Rightarrow>
   kwargs \<Rightarrow> error + component" where
  "store_component k nm ins outs convs kw =
     Inr \<lparr>kind = k, name = nm, inputs = ins, outputs = outs, conversions = convs,
          options = kw\<rparr>"

definition store_system ::
  "string option \<Rightarrow> component list \<Rightarrow> component list \<Rightarrow> component list \<Rightarrow> component list \<Rightarrow>
   component list \<Rightarrow> timestamp list \<Rightarrow> kwargs \<Rightarrow> error + energy_system" where
  "store_system u bs sk so tr st tf gc =
     Inr \<lparr>uid = u, busses = bs, sinks = sk, sources = so, transformers = tr,
          storages = st, timeframe = tf, global_constraints = gc\<rparr>"

definition tessif_unchecked :: libraries where
  "tessif_unchecked =
     \<lparr>construct = store_component, AbstractEnergySystem = store_system,
      dump = spec_dump, mul_recip = exact_mul_recip\<rparr>"

section \<open>pandas and numpy\<close>

text \<open>
  \<^verbatim>\<open>pd.date_range(start, periods=p, freq="H")\<close>: \<open>p\<close> hourly time stamps, each kept as the
  start date and the number of hours after it. A negative number of periods is refused
  by pandas.
\<close>

definition date_range :: "string \<Rightarrow> int \<Rightarrow> error + timestamp list" where
  "date_range start p =
     (if p < 0 then Inl ValueError else Inr (map (\<lambda>k. (start, k)) [0..<nat p]))"

text \<open>
  \<^verbatim>\<open>pd.read_csv(os.path.join(d, name), index_col=0, sep=";")\<close>: a missing file or a file
  that does not parse (here: a row that has not one cell per column, or a column without
  a dtype) is an I/O error.
\<close>

definition read_csv :: "world \<Rightarrow> string \<Rightarrow> error + csv" where
  "read_csv w fname =
     (case files w fname of
        None \<Rightarrow> Inl IOError
      | Some t \<Rightarrow>
          if list_all (\<lambda>r. length r = length (columns t)) (rows t)
             \<and> length (dtypes t) = length (columns t)
          then Inr t
          else Inl IOError)"

text \<open>
  \<^verbatim>\<open>frame.values.flatten()\<close>: all cells, row by row; an \<^verbatim>\<open>int64\<close> array when every column
  is one.
\<close>

definition values_flatten :: "csv \<Rightarrow> ndarray" where
  "values_flatten t =
     \<lparr>dtype = (if dtypes t \<noteq> [] \<and> list_all (\<lambda>d. d = Int64) (dtypes t) then Int64 else Float64),
      vals = concat (rows t)\<rparr>"

fun index_of :: "string \<Rightarrow> string list \<Rightarrow> nat" where
  "index_of c [] = 0"
| "index_of c (x # xs) = (if c = x then 0 else Suc (index_of c xs))"

text \<open>\<^verbatim>\<open>frame[c]\<close>: the column named \<open>c\<close>, a KeyError when there is none.\<close>

definition column :: "csv \<Rightarrow> string \<Rightarrow> error + ndarray" where
  "column t c =
     (if c \<in> set (columns t)
      then Inr \<lparr>dtype = dtypes t ! index_of c (columns t),
                vals = map (\<lambda>r. r ! index_of c (columns t)) (rows t)\<rparr>
      else Inl KeyError)"

text \<open>\<^verbatim>\<open>xs[0:p]\<close>: a negative bound counts from the end.\<close>

definition py_slice :: "int \<Rightarrow> 'a list \<Rightarrow> 'a list" where
  "py_slice p xs =
     (if 0 \<le> p then take (nat p) xs else take (length xs - nat (- p)) xs)"

definition slice_to :: "int \<Rightarrow> ndarray \<Rightarrow> ndarray" where
  "slice_to p a = a\<lparr>vals := py_slice p (vals a)\<rparr>"

text \<open>
  \<^verbatim>\<open>np.max\<close> of an array: a ValueError on an empty one; not-a-number when the array holds
  one.
\<close>

fun fmax :: "number \<Rightarrow> number \<Rightarrow> number" where
  "fmax NaN y = NaN"
| "fmax x NaN = NaN"
| "fmax PInf y = PInf"
| "fmax x PInf = PInf"
| "fmax NInf y = y"
| "fmax x NInf = x"
| "fmax (Num a) (Num b) = Num (max a b)"

definition np_max :: "ndarray \<Rightarrow> error + number" where
  "np_max a = (case vals a of [] \<Rightarrow> Inl ValueError | x # xs \<Rightarrow> Inr (fold fmax xs x))"

text \<open>
  \<^verbatim>\<open>a[i] = v\<close> for a float64 value \<open>v\<close>. A float64 array takes the value as it is. An
  \<^verbatim>\<open>int64\<close> array takes the integer that \<open>v\<close> truncates to: an infinity, or an integer
  outside 64 bits, is an OverflowError and not-a-number a ValueError.
\<close>

fun to_int64 :: "number \<Rightarrow> error + number" where
  "to_int64 (Num r) =
     (if - 9223372036854775808 \<le> (if 0 \<le> r then \<lfloor>r\<rfloor> else \<lceil>r\<rceil>)
         \<and> (if 0 \<le> r then \<lfloor>r\<rfloor> else \<lceil>r\<rceil>) \<le> 9223372036854775807
      then Inr (Num (of_int (if 0 \<le> r then \<lfloor>r\<rfloor> else \<lceil>r\<rceil>)))
      else Inl OverflowError)"
| "to_int64 PInf = Inl OverflowError"
| "to_int64 NInf = Inl OverflowError"
| "to_int64 NaN = Inl ValueError"

definition setitem :: "ndarray \<Rightarrow> nat \<Rightarrow> number \<Rightarrow> error + ndarray" where
  "setitem a i v =
     (if length (vals a) \<le> i then Inl IndexError
      else case dtype a of
             Float64 \<Rightarrow> Inr (a\<lparr>vals := (vals a)[i := v]\<rparr>)
           | Int64 \<Rightarrow> bnd (to_int64 v) (\<lambda>z. Inr (a\<lparr>vals := (vals a)[i := z]\<rparr>)))"

section \<open>The store step of a builder\<close>

text \<open>
  Step 5 of a builder: \<^verbatim>\<open>if not filename: filename = default\<close> (\<^verbatim>\<open>None\<close> and the empty
  string are both false), then \<^verbatim>\<open>explicit_es.dump(directory=directory, filename=filename)\<close>
  and \<^verbatim>\<open>return explicit_es\<close>.
\<close>

definition filename_or :: "string \<Rightarrow> string option \<Rightarrow> string" where
  "filename_or dflt filename =
     (case filename of None \<Rightarrow> dflt | Some s \<Rightarrow> if s = [] then dflt else s)"

definition store ::
  "libraries \<Rightarrow> string \<Rightarrow> energy_system \<Rightarrow> string option \<Rightarrow> string option \<Rightarrow> world \<Rightarrow>
   error + (energy_system \<times> world)" where
  "store L dflt explicit_es directory filename w =
     bnd (dump L explicit_es directory (filename_or dflt filename) w) (\<lambda>w'.
     Inr (explicit_es, w'))"

section \<open>The zero costs example\<close>

text \<open>The components of \<^verbatim>\<open>create_zero_costs_es\<close>, in the order the source builds them.\<close>

definition emitting_source :: "libraries \<Rightarrow> error + component" where
  "emitting_source L =
     Source L ''Emitting Source'' [''electricity'']
       [(''flow_emissions'', VDict [(''electricity'', VNum (Num 1))])]"

definition capped_renewable :: "libraries \<Rightarrow> error + component" where
  "capped_renewable L =
     Source L ''Capped Renewable'' [''electricity'']
       [(''flow_rates'', VDict [(''electricity'', VMinMax (VNum (Num 0)) (VNum (Num 2)))]),
        (''expandable'', VDict [(''electricity'', VBool True)]),
        (''expansion_limits'', VDict [(''electricity'', VMinMax (VNum (Num 2)) (VNum (Num 4)))])]"

definition uncapped_min :: "rat list" where
  "uncapped_min = [1, 2, 3, 1]"

definition uncapped_max :: "rat list" where
  "uncapped_max = [1, 2, 3, 1]"

definition uncapped_renewable :: "libraries \<Rightarrow> error + component" where
  "uncapped_renewable L =
     Source L ''Uncapped Renewable'' [''electricity'']
       [(''flow_rates'', VDict [(''electricity'', VMinMax (VNum (Num 0)) (VNum (Num 1)))]),
        (''expandable'', VDict [(''electricity'', VBool True)]),
        (''timeseries'', VDict [(''electricity'',
            VMinMax (VArr (map Num uncapped_min)) (VArr (map Num uncapped_max)))]),
        (''expansion_limits'', VDict [(''electricity'',
            VMinMax (VNum (Num (fold max (tl uncapped_max) (hd uncapped_max)))) (VNum PInf))])]"

definition electricity_line :: "libraries \<Rightarrow> error + component" where
  "electricity_line L =
     Bus L ''Powerline''
       [''Emitting Source.electricity'', ''Capped Renewable.electricity'',
        ''Uncapped Renewable.electricity'']
       [''Demand.electricity'']
       []"

definition demand :: "libraries \<Rightarrow> error + component" where
  "demand L =
     Sink L ''Demand'' [''electricity'']
       [(''flow_rates'', VDict [(''electricity'', VMinMax (VNum (Num 10)) (VNum (Num 10)))])]"

text \<open>
  \<^verbatim>\<open>create_zero_costs_es(directory=None, filename=None)\<close>. The function reads no file and
  calls no \<^verbatim>\<open>dump\<close>; the world is threaded through to say so.
\<close>

definition create_zero_costs_es ::
  "libraries \<Rightarrow> string option \<Rightarrow> string option \<Rightarrow> world \<Rightarrow> error + (energy_system \<times> world)" where
  "create_zero_costs_es L directory filename w =
     bnd (date_range ''7/13/1990'' 4) (\<lambda>tf.
     bnd (emitting_source L) (\<lambda>es_src.
     bnd (capped_renewable L) (\<lambda>capped.
     bnd (uncapped_renewable L) (\<lambda>uncapped.
     bnd (electricity_line L) (\<lambda>line.
     bnd (demand L) (\<lambda>dem.
     bnd (AbstractEnergySystem L (Some ''Zero Costs Example'') [line] [dem]
            [es_src, capped, uncapped] [] [] tf
            [(''emissions'', VNum (Num 8))]) (\<lambda>explicit_es.
     Inr (explicit_es, w))))))))"

section \<open>The Hamburg example, \<^verbatim>\<open>create_hhes_ar\<close>\<close>

definition in_stat :: bool where
  "in_stat = False"

definition cfba :: rat where
  "cfba = 0"

definition ar_global_constraints :: kwargs where
  "ar_global_constraints =
     [(''name'', VStr ''2019''), (''emissions'', VNum PInf), (''resources'', VNum PInf)]"

definition gass :: "libraries \<Rightarrow> error + component" where
  "gass L =
     Source L ''gas supply'' [''gas'']
       [(''region'', VStr ''HH''), (''node_type'', VStr ''gas_supply''),
        (''component'', VStr ''source''), (''sector'', VStr ''coupled''),
        (''carrier'', VStr ''gas'')]"

definition chp1 :: "libraries \<Rightarrow> error + component" where
  "chp1 L =
     Transformer L ''gas power plant'' [''gas''] [''electricity'', ''hot_water'']
       [((''gas'', ''electricity''), Num (3773 / 10000)),
        ((''gas'', ''hot_water''), Num (3 / 10))]
       [(''latitude'', VNum (Num (5351 / 100))), (''longitude'', VNum (Num (994985 / 100000))),
        (''region'', VStr ''HH''), (''node_type'', VStr ''HKW ADM''),
        (''component'', VStr ''transformer''), (''sector'', VStr ''coupled''),
        (''carrier'', VStr ''gas''),
        (''flow_rates'', VDict
           [(''gas'', VMinMax (VNum (Num 0)) (VNum PInf)),
            (''electricity'', VMinMax (VNum (Num 0)) (VNum PInf)),
            (''hot_water'', VMinMax (VNum (Num 0)) (VNum PInf))]),
        (''flow_costs'', VDict
           [(''gas'', VNum (Num 0)), (''electricity'', VNum (Num 90)),
            (''hot_water'', VNum (Num (216 / 10)))]),
        (''flow_emissions'', VDict
           [(''gas'', VNum (Num (2 / 10))), (''electricity'', VNum (Num 0)),
            (''hot_water'', VNum (Num 0))]),
        (''initial_status'', VBool in_stat),
        (''status_inertia'', VOnOff (VNum (Num 0)) (VNum (Num 1))),
        (''status_changing_costs'', VOnOff (VNum (Num 24)) (VNum (Num 0))),
        (''costs_for_being_active'', VNum (Num cfba))]"

definition hp1 :: "libraries \<Rightarrow> error + component" where
  "hp1 L =
     Transformer L ''heat power plant'' [''gas''] [''hot_water'']
       [((''waste'', ''hot_water''), Num (96666 / 100000))]
       [(''latitude'', VNum (Num (5354106052 / 100000000))),
        (''longitude'', VNum (Num (999590096 / 100000000))),
        (''region'', VStr ''HH''), (''node_type'', VStr ''Heizwerk Hafencity''),
        (''component'', VStr ''transformer''), (''sector'', VStr ''heat''),
        (''carrier'', VStr ''gas''),
        (''flow_rates'', VDict
           [(''gas'', VMinMax (VNum (Num 0)) (VNum PInf)),
            (''hot_water'', VMinMax (VNum (Num 0)) (VNum (Num 348)))]),
        (''flow_costs'', VDict [(''gas'', VNum (Num 0)), (''hot_water'', VNum (Num 20))]),
        (''flow_emissions'', VDict
           [(''gas'', VNum (Num 0)), (''hot_water'', VNum (Num (2 / 10)))]),
        (''expandable'', VDict [(''gas'', VBool False), (''hot_water'', VBool True)]),
        (''expansion_costs'', VDict [(''gas'', VNum (Num 0)), (''hot_water'', VNum (Num 0))]),
        (''expansion_limits'', VDict
           [(''gas'', VMinMax (VNum (Num 0)) (VNum PInf)),
            (''hot_water'', VMinMax (VNum (Num 348)) (VNum PInf))])]"

definition pv1 :: "libraries \<Rightarrow> number list \<Rightarrow> number \<Rightarrow> error + component" where
  "pv1 L pv_HH max_pv =
     Source L ''solar'' [''electricity'']
       [(''region'', VStr ''HH''), (''node_type'', VStr ''renewable''),
        (''component'', VStr ''source''), (''sector'', VStr ''power''),
        (''carrier'', VStr ''solar''),
        (''flow_rates'', VDict [(''electricity'', VMinMax (VNum (Num 0)) (VNum max_pv))]),
        (''flow_costs'', VDict [(''electricity'', VNum (Num 74))]),
        (''flow_emissions'', VDict [(''electricity'', VNum (Num 0))]),
        (''timeseries'', VDict
           [(''electricity'', VMinMax (VArr pv_HH) (VArr pv_HH))]),
        (''expandable'', VDict [(''electricity'', VBool True)]),
        (''expansion_costs'', VDict [(''electricity'', VAnnuity 1000000 20 (5 / 100))]),
        (''expansion_limits'', VDict
           [(''electricity'', VMinMax (VNum max_pv) (VNum PInf))])]"

definition won1 :: "libraries \<Rightarrow> number list \<Rightarrow> number \<Rightarrow> error + component" where
  "won1 L wo_HH max_wo =
     Source L ''wind'' [''electricity'']
       [(''region'', VStr ''HH''), (''node_type'', VStr ''renewable''),
        (''component'', VStr ''source''), (''sector'', VStr ''power''),
        (''carrier'', VStr ''wind''),
        (''flow_rates'', VDict [(''electricity'', VMinMax (VNum (Num 0)) (VNum max_wo))]),
        (''flow_costs'', VDict [(''electricity'', VNum (Num 61))]),
        (''flow_emissions'', VDict [(''electricity'', VNum (Num (7 / 1000)))]),
        (''timeseries'', VDict
           [(''electricity'', VMinMax (VArr wo_HH) (VArr wo_HH))]),
        (''expandable'', VDict [(''electricity'', VBool True)]),
        (''expansion_costs'', VDict [(''electricity'', VAnnuity 1750000 20 (5 / 100))]),
        (''expansion_limits'', VDict
           [(''electricity'', VMinMax (VNum max_wo) (VNum PInf))])]"

definition est :: "libraries \<Rightarrow> error + component" where
  "est L =
     Storage L ''electrical storage'' ''electricity'' ''electricity''
       [(''capacity'', VNum (Num 1)), (''initial_soc'', VNum (Num 1)),
        (''region'', VStr ''HH''), (''sector'', VStr ''power''),
        (''carrier'', VStr ''electricity''), (''component'', VStr ''storage''),
        (''flow_rates'', VDict [(''electricity'', VMinMax (VNum (Num 0)) (VNum PInf))]),
        (''flow_costs'', VDict [(''electricity'', VNum (Num 20))]),
        (''flow_emissions'', VDict [(''electricity'', VNum (Num 0))]),
        (''expendable'', VDict [(''capacity'', VBool True), (''electricity'', VBool False)]),
        (''expansion_costs'', VDict [(''capacity'', VAnnuity 1000000 10 (5 / 100))])]"

definition p2h :: "libraries \<Rightarrow> error + component" where
  "p2h L =
     Transformer L ''power to heat'' [''electricity''] [''hot_water'']
       [((''electricity'', ''hot_water''), Num (99 / 100))]
       [(''latitude'', VNum (Num (5355912 / 100000))),
        (''longitude'', VNum (Num (997148 / 100000))),
        (''region'', VStr ''HH''), (''node_type'', VStr ''power2heat''),
        (''component'', VStr ''transformer''), (''sector'', VStr ''heat''),
        (''carrier'', VStr ''hot_water''),
        (''flow_rates'', VDict
           [(''electricity'', VMinMax (VNum (Num 0)) (VNum PInf)),
            (''hot_water'', VMinMax (VNum (Num 0)) (VNum (Num 45)))]),
        (''flow_costs'', VDict
           [(''electricity'', VNum (Num 0)), (''hot_water'', VNum (Num 0))]),
        (''flow_emissions'', VDict
           [(''electricity'', VNum (Num 0)), (''hot_water'', VNum (Num 0))]),
        (''expandable'', VDict [(''electricity'', VBool False), (''hot_water'', VBool True)]),
        (''expansion_costs'', VDict [(''hot_water'', VAnnuity 200000 30 (5 / 100))]),
        (''expansion_limits'', VDict
           [(''hot_water'', VMinMax (VNum (Num 45)) (VNum (Num 200)))])]"

definition imel :: "libraries \<Rightarrow> error + component" where
  "imel L =
     Source L ''imported el'' [''electricity'']
       [(''region'', VStr ''HH''), (''node_type'', VStr ''import''),
        (''component'', VStr ''source''), (''sector'', VStr ''power''),
        (''carrier'', VStr ''electricity''),
        (''flow_costs'', VDict [(''electricity'', VNum (Num 999))]),
        (''flow_emissions'', VDict [(''electricity'', VNum (Num (401 / 1000)))]),
        (''expendable'', VDict [(''electricity'', VBool True)]),
        (''expansion_costs'', VDict [(''electricity'', VNum (Num 999999999))])]"

definition imth :: "libraries \<Rightarrow> error + component" where
  "imth L =
     Source L ''imported th'' [''hot_water'']
       [(''region'', VStr ''HH''), (''node_type'', VStr ''import''),
        (''component'', VStr ''source''), (''sector'', VStr ''heat''),
        (''carrier'', VStr ''hot_water''),
        (''flow_costs'', VDict [(''hot_water'', VNum (Num 999))]),
        (''flow_emissions'', VDict [(''hot_water'', VNum (Num (1 / 10)))]),
        (''expendable'', VDict [(''hot_water'', VBool True)]),
        (''expansion_costs'', VDict [(''hot_water'', VNum (Num 999999999))])]"

definition demand_el :: "libraries \<Rightarrow> number list \<Rightarrow> number \<Rightarrow> error + component" where
  "demand_el L de_HH max_de =
     Sink L ''demand el'' [''electricity'']
       [(''region'', VStr ''HH''), (''node_type'', VStr ''demand''),
        (''component'', VStr ''sink''), (''sector'', VStr ''power''),
        (''carrier'', VStr ''electricity''),
        (''flow_rates'', VDict [(''electricity'', VMinMax (VNum (Num 0)) (VNum max_de))]),
        (''timeseries'', VDict
           [(''electricity'', VMinMax (VArr de_HH) (VArr de_HH))])]"

definition demand_th :: "libraries \<Rightarrow> number list \<Rightarrow> number \<Rightarrow> error + component" where
  "demand_th L th_HH max_th =
     Sink L ''demand th'' [''hot_water'']
       [(''region'', VStr ''HH''), (''node_type'', VStr ''demand''),
        (''component'', VStr ''sink''), (''sector'', VStr ''heat''),
        (''carrier'', VStr ''hot_water''),
        (''flow_rates'', VDict [(''hot_water'', VMinMax (VNum (Num 0)) (VNum max_th))]),
        (''timeseries'', VDict
           [(''hot_water'', VMinMax (VArr th_HH) (VArr th_HH))])]"

definition excess_el :: "libraries \<Rightarrow> error + component" where
  "excess_el L =
     Sink L ''excess el'' [''electricity'']
       [(''region'', VStr ''HH''), (''node_type'', VStr ''excess''),
        (''component'', VStr ''sink''), (''sector'', VStr ''power''),
        (''carrier'', VStr ''electricity'')]"

definition excess_th :: "libraries \<Rightarrow> error + component" where
  "excess_th L =
     Sink L ''excess th'' [''hot_water'']
       [(''region'', VStr ''HH''), (''node_type'', VStr ''excess''),
        (''component'', VStr ''sink''), (''sector'', VStr ''heat''),
        (''carrier'', VStr ''hot_water'')]"

definition gas_pipeline :: "libraries \<Rightarrow> error + component" where
  "gas_pipeline L =
     Bus L ''gas pipeline''
       [''gas supply.gas'']
       [''gas power plant.gas'', ''chp2.gas'', ''heat power plant.gas'']
       [(''region'', VStr ''HH''), (''node_type'', VStr ''gas_pipeline''),
        (''component'', VStr ''bus''), (''sector'', VStr ''coupled''),
        (''carrier'', VStr ''gas'')]"

definition powerline :: "libraries \<Rightarrow> error + component" where
  "powerline L =
     Bus L ''powerline''
       [''gas power plant.electricity'', ''solar.electricity'', ''wind.electricity'',
        ''imported el.electricity'', ''electrical storage.electricity'']
       [''demand el.electricity'', ''excess el.electricity'',
        ''electrical storage.electricity'', ''power to heat.electricity'']
       [(''region'', VStr ''HH''), (''node_type'', VStr ''powerline''),
        (''component'', VStr ''bus''), (''sector'', VStr ''power''),
        (''carrier'', VStr ''electricity'')]"

definition district_heating :: "libraries \<Rightarrow> error + component" where
  "district_heating L =
     Bus L ''district heating pipeline''
       [''gas power plant.hot_water'', ''imported th.hot_water'',
        ''power to heat.hot_water'', ''heat power plant.hot_water'']
       [''demand th.hot_water'', ''excess th.hot_water'']
       [(''region'', VStr ''HH''), (''node_type'', VStr ''district_heating_pipeline''),
        (''component'', VStr ''bus''), (''sector'', VStr ''heat''),
        (''carrier'', VStr ''hot_water'')]"

text \<open>
  Lines 154 to 548 of \<^verbatim>\<open>create_hhes_ar\<close>: the time frame, the four load profiles, the
  components in the order of the source, and the system.
\<close>

definition hhes_ar_system :: "libraries \<Rightarrow> int \<Rightarrow> world \<Rightarrow> error + energy_system" where
  "hhes_ar_system L periods w =
     bnd (date_range ''2019-01-01'' periods) (\<lambda>tf.
     bnd (read_csv w ''solar_HH_2019.csv'') (\<lambda>pv.
     bnd (np_max (slice_to periods (values_flatten pv))) (\<lambda>max_pv.
     bnd (read_csv w ''wind_HH_2019.csv'') (\<lambda>wo.
     bnd (np_max (slice_to periods (values_flatten wo))) (\<lambda>max_wo.
     bnd (read_csv w ''el_demand_HH_2019.csv'') (\<lambda>de.
     bnd (column de ''Last (MW)'') (\<lambda>de_col.
     bnd (np_max (slice_to periods de_col)) (\<lambda>max_de.
     bnd (read_csv w ''th_demand_HH_2019.csv'') (\<lambda>th.
     bnd (column th ''actual_total_load'') (\<lambda>th_col.
     bnd (np_max (slice_to periods th_col)) (\<lambda>max_th.
     bnd (gass L) (\<lambda>c_gass.
     bnd (chp1 L) (\<lambda>c_chp1.
     bnd (hp1 L) (\<lambda>c_hp1.
     bnd (pv1 L (vals (slice_to periods (values_flatten pv))) max_pv) (\<lambda>c_pv1.
     bnd (won1 L (vals (slice_to periods (values_flatten wo))) max_wo) (\<lambda>c_won1.
     bnd (est L) (\<lambda>c_est.
     bnd (p2h L) (\<lambda>c_p2h.
     bnd (imel L) (\<lambda>c_imel.
     bnd (imth L) (\<lambda>c_imth.
     bnd (demand_el L (vals (slice_to periods de_col)) max_de) (\<lambda>c_demand_el.
     bnd (demand_th L (vals (slice_to periods th_col)) max_th) (\<lambda>c_demand_th.
     bnd (excess_el L) (\<lambda>c_excess_el.
     bnd (excess_th L) (\<lambda>c_excess_th.
     bnd (gas_pipeline L) (\<lambda>c_gas_pipeline.
     bnd (powerline L) (\<lambda>c_powerline.
     bnd (district_heating L) (\<lambda>c_district_heating.
     AbstractEnergySystem L (Some ''Energy System Hamburg'')
       [c_gas_pipeline, c_powerline, c_district_heating]
       [c_demand_el, c_demand_th, c_excess_el, c_excess_th]
       [c_gass, c_pv1, c_won1, c_imel, c_imth]
       [c_chp1, c_hp1, c_p2h]
       [c_est]
       tf ar_global_constraints)))))))))))))))))))))))))))"

text \<open>
  \<^verbatim>\<open>create_hhes_ar(periods=24, directory=None, filename=None)\<close>: the system, then the
  store step with the default file name \<^verbatim>\<open>hhes.tsf\<close>.
\<close>

definition create_hhes_ar ::
  "libraries \<Rightarrow> int \<Rightarrow> string option \<Rightarrow> string option \<Rightarrow> world \<Rightarrow>
   error + (energy_system \<times> world)" where
  "create_hhes_ar L periods directory filename w =
     bnd (hhes_ar_system L periods w) (\<lambda>explicit_es.
     store L ''hhes.tsf'' explicit_es directory filename w)"

section \<open>The basic Hamburg example, \<^verbatim>\<open>create_hhes_basic\<close>\<close>

text \<open>The module-level \<^verbatim>\<open>periods = 100\<close>.\<close>

definition periods :: int where
  "periods = 100"

text \<open>
  The array variables of \<^verbatim>\<open>create_hhes_basic\<close>. \<^verbatim>\<open>pv_norm = np.array(pv_HH)\<close> is a copy:
  an array of its own, of the dtype of \<^verbatim>\<open>pv_HH\<close>, which the loop below writes to.
\<close>

record arrays =
  de_HH :: ndarray
  max_de :: number
  de_HH_norm :: ndarray
  pv_HH :: ndarray
  max_pv :: number
  pv_norm :: ndarray
  wo_HH :: ndarray
  max_wo :: number

text \<open>
  Lines 609 to 628: the three load profiles. The demand and the wind series are cut at
  the module's \<^verbatim>\<open>periods\<close>, the solar series at the parameter \<^verbatim>\<open>period\<close>.
  \<^verbatim>\<open>de_HH * (1 / max_de)\<close> is a new float64 array.
\<close>

definition hhes_basic_arrays :: "libraries \<Rightarrow> int \<Rightarrow> world \<Rightarrow> error + arrays" where
  "hhes_basic_arrays L period w =
     bnd (read_csv w ''el_demand_HH_2019.csv'') (\<lambda>de.
     bnd (column de ''Last (MW)'') (\<lambda>de_col.
     bnd (np_max (slice_to periods de_col)) (\<lambda>mx_de.
     bnd (read_csv w ''solar_HH_2019.csv'') (\<lambda>pv.
     bnd (np_max (slice_to period (values_flatten pv))) (\<lambda>mx_pv.
     bnd (read_csv w ''wind_HH_2019.csv'') (\<lambda>wo.
     bnd (np_max (slice_to periods (values_flatten wo))) (\<lambda>mx_wo.
     Inr \<lparr>de_HH = slice_to periods de_col,
          max_de = mx_de,
          de_HH_norm =
            \<lparr>dtype = Float64,
             vals = map (\<lambda>x. mul_recip L x mx_de) (vals (slice_to periods de_col))\<rparr>,
          pv_HH = slice_to period (values_flatten pv),
          max_pv = mx_pv,
          pv_norm = slice_to period (values_flatten pv),
          wo_HH = slice_to periods (values_flatten wo),
          max_wo = mx_wo\<rparr>)))))))"

text \<open>
  Lines 630 to 635:
  \<^verbatim>\<open>for i in range(len(pv_HH) - 1): if pv_HH[i] == 0: continue else: pv_norm[i] = pv_HH[i] * (1 / max_pv)\<close>.
  The assignment can raise, and then the builder ends there.
\<close>

definition pv_norm_step :: "libraries \<Rightarrow> nat \<Rightarrow> arrays \<Rightarrow> error + arrays" where
  "pv_norm_step L i a =
     (if vals (pv_HH a) ! i = Num 0 then Inr a
      else bnd (setitem (pv_norm a) i (mul_recip L (vals (pv_HH a) ! i) (max_pv a))) (\<lambda>n.
           Inr (a\<lparr>pv_norm := n\<rparr>)))"

fun pv_norm_range :: "libraries \<Rightarrow> nat list \<Rightarrow> arrays \<Rightarrow> error + arrays" where
  "pv_norm_range L [] a = Inr a"
| "pv_norm_range L (i # ks) a = bnd (pv_norm_step L i a) (pv_norm_range L ks)"

definition pv_norm_loop :: "libraries \<Rightarrow> arrays \<Rightarrow> error + arrays" where
  "pv_norm_loop L a = pv_norm_range L [0..<length (vals (pv_HH a)) - 1] a"

definition BELECTRICITY :: "libraries \<Rightarrow> error + component" where
  "BELECTRICITY L =
     Bus L ''powerline''
       [''gas power plant.electricity'', ''imported electricity.electricity'',
        ''solar.electricity'', ''wind.electricity'']
       [''demand.electricity'', ''excess.electricity'']
       [(''region'', VStr ''HH''), (''sector'', VStr ''Power''),
        (''node_type'', VStr ''AC-Bus''), (''component'', VStr ''bus''),
        (''carrier'', VStr ''electricity'')]"

definition basic_global_constraints :: "rat \<Rightarrow> kwargs" where
  "basic_global_constraints em_limit =
     [(''name'', VStr ''hhes_basic''), (''emissions'', VNum (Num em_limit)),
      (''resources'', VNum PInf)]"

definition DEMAND :: "libraries \<Rightarrow> arrays \<Rightarrow> error + component" where
  "DEMAND L a =
     Sink L ''demand'' [''electricity'']
       [(''region'', VStr ''HH''), (''node_type'', VStr ''DEMAND''),
        (''component'', VStr ''sink''), (''carrier'', VStr ''electricity''),
        (''flow_rates'', VDict
           [(''electricity'', VMinMax (VNum (Num 0)) (VNum (max_de a)))]),
        (''timeseries'', VDict
           [(''electricity'', VMinMax (VArr (vals (de_HH a))) (VArr (vals (de_HH a))))])]"

definition EXCESS :: "libraries \<Rightarrow> error + component" where
  "EXCESS L =
     Sink L ''excess'' [''electricity'']
       [(''region'', VStr ''HH''), (''node_type'', VStr ''DEMAND''),
        (''component'', VStr ''sink''), (''carrier'', VStr ''electricity'')]"

definition WIND :: "libraries \<Rightarrow> arrays \<Rightarrow> error + component" where
  "WIND L a =
     Source L ''wind'' [''electricity'']
       [(''region'', VStr ''HH''), (''node_type'', VStr ''renewable''),
        (''component'', VStr ''source''), (''sector'', VStr ''power''),
        (''carrier'', VStr ''wind''),
        (''flow_rates'', VDict
           [(''electricity'', VMinMax (VNum (Num 0)) (VNum (max_wo a)))]),
        (''flow_costs'', VDict [(''electricity'', VNum (Num 8))]),
        (''flow_emissions'', VDict [(''electricity'', VNum (Num (7 / 1000)))]),
        (''timeseries'', VDict
           [(''electricity'', VMinMax (VArr (vals (wo_HH a))) (VArr (vals (wo_HH a))))]),
        (''expandable'', VDict [(''electricity'', VBool True)]),
        (''expansion_costs'', VDict [(''electricity'', VAnnuity 1750000 20 (5 / 100))]),
        (''expansion_limits'', VDict
           [(''electricity'', VMinMax (VNum (max_wo a)) (VNum PInf))])]"

definition GAS_SUPPLY :: "libraries \<Rightarrow> error + component" where
  "GAS_SUPPLY L =
     Source L ''GAS_SUPPLY'' [''gas'']
       [(''region'', VStr ''HH''), (''node_type'', VStr ''GAS_SUPPLY''),
        (''component'', VStr ''source''), (''sector'', VStr ''coupled''),
        (''carrier'', VStr ''gas'')]"

definition GAS_PIPELINE :: "libraries \<Rightarrow> error + component" where
  "GAS_PIPELINE L =
     Bus L ''GAS_PIPELINE''
       [''GAS_SUPPLY.gas'']
       [''GAS_POWERPLANT.gas'']
       [(''region'', VStr ''HH''), (''node_type'', VStr ''GAS_PIPELINE''),
        (''component'', VStr ''bus''), (''sector'', VStr ''coupled''),
        (''carrier'', VStr ''gas'')]"

definition SOLAR :: "libraries \<Rightarrow> arrays \<Rightarrow> error + component" where
  "SOLAR L a =
     Source L ''solar'' [''electricity'']
       [(''region'', VStr ''HH''), (''sector'', VStr ''Power''),
        (''carrier'', VStr ''electricity''), (''component'', VStr ''source''),
        (''node_type'', VStr ''renewable''),
        (''flow_rates'', VDict
           [(''electricity'', VMinMax (VNum (Num 0)) (VNum (max_pv a)))]),
        (''flow_costs'', VDict [(''electricity'', VNum (Num 20))]),
        (''flow_emissions'', VDict [(''electricity'', VNum (Num 0))]),
        (''timeseries'', VDict
           [(''electricity'', VMinMax (VArr (vals (pv_HH a))) (VArr (vals (pv_HH a))))]),
        (''expandable'', VDict [(''electricity'', VBool True)]),
        (''expansion_costs'', VDict [(''electricity'', VAnnuity 10000 20 (5 / 100))]),
        (''expansion_limits'', VDict
           [(''electricity'', VMinMax (VNum (Num 0)) (VNum PInf))])]"

definition GAS_POWERPLANT :: "libraries \<Rightarrow> error + component" where
  "GAS_POWERPLANT L =
     Transformer L ''gas power plant'' [''gas''] [''electricity'']
       [((''gas'', ''electricity''), Num (4075 / 10000))]
       [(''region'', VStr ''HH''), (''node_type'', VStr ''GAS_POWERPLANT''),
        (''component'', VStr ''transformer''), (''sector'', VStr ''coupled''),
        (''carrier'', VStr ''gas''),
        (''flow_rates'', VDict
           [(''gas'', VMinMax (VNum (Num 0)) (VNum PInf)),
            (''electricity'', VMinMax (VNum (Num 0)) (VNum (Num 1000)))]),
        (''flow_costs'', VDict [(''gas'', VNum (Num 10)), (''electricity'', VNum (Num 30))]),
        (''flow_emissions'', VDict
           [(''gas'', VNum (Num (2 / 10))), (''electricity'', VNum (Num 0))]),
        (''initial_status'', VBool False),
        (''status_inertia'', VOnOff (VNum (Num 0)) (VNum (Num 7))),
        (''status_changing_costs'', VOnOff (VNum (Num 30)) (VNum (Num 0))),
        (''costs_for_being_active'', VNum (Num 0))]"

definition ELECTRICITY_IMPORT :: "libraries \<Rightarrow> error + component" where
  "ELECTRICITY_IMPORT L =
     Source L ''imported electricity'' [''electricity'']
       [(''region'', VStr ''HH''), (''node_type'', VStr ''EL_IMPORT''),
        (''component'', VStr ''source''), (''carrier'', VStr ''electricity''),
        (''flow_rates'', VDict [(''electricity'', VMinMax (VNum (Num 0)) (VNum PInf))]),
        (''flow_costs'', VDict [(''electricity'', VNum (Num 9999))]),
        (''flow_emissions'', VDict [(''electricity'', VNum (Num (45 / 100)))])]"

text \<open>
  Lines 637 to 801: the components in the order of the source (the gas supply and the gas
  pipeline are built but left out of the system) and the system, with \<^verbatim>\<open>uid=filename\<close>.
\<close>

definition hhes_basic_components ::
  "libraries \<Rightarrow> rat \<Rightarrow> string option \<Rightarrow> timestamp list \<Rightarrow> arrays \<Rightarrow> error + energy_system" where
  "hhes_basic_components L em_limit filename tf a =
     bnd (BELECTRICITY L) (\<lambda>c_belectricity.
     bnd (DEMAND L a) (\<lambda>c_demand.
     bnd (EXCESS L) (\<lambda>c_excess.
     bnd (WIND L a) (\<lambda>c_wind.
     bnd (GAS_SUPPLY L) (\<lambda>c_gas_supply.
     bnd (GAS_PIPELINE L) (\<lambda>c_gas_pipeline.
     bnd (SOLAR L a) (\<lambda>c_solar.
     bnd (GAS_POWERPLANT L) (\<lambda>c_gas_powerplant.
     bnd (ELECTRICITY_IMPORT L) (\<lambda>c_electricity_import.
     AbstractEnergySystem L filename
       [c_belectricity]
       [c_demand, c_excess]
       [c_electricity_import, c_solar, c_wind]
       [c_gas_powerplant]
       []
       tf (basic_global_constraints em_limit))))))))))"

text \<open>Lines 607 to 801: the time frame, the load profiles, the loop, the system.\<close>

definition hhes_basic_system ::
  "libraries \<Rightarrow> rat \<Rightarrow> int \<Rightarrow> string option \<Rightarrow> world \<Rightarrow> error + energy_system" where
  "hhes_basic_system L em_limit period filename w =
     bnd (date_range ''1/1/2019'' period) (\<lambda>tf.
     bnd (hhes_basic_arrays L period w) (\<lambda>a.
     bnd (pv_norm_loop L a) (\<lambda>a'.
     hhes_basic_components L em_limit filename tf a')))"

text \<open>
  \<^verbatim>\<open>create_hhes_basic(em_limit=99999999999, period=periods, directory=None, filename=None)\<close>:
  the system, then the store step with the default file name \<^verbatim>\<open>hhes_basic.tsf\<close>, which
  is set after the system has been built.
\<close>

definition create_hhes_basic ::
  "libraries \<Rightarrow> rat \<Rightarrow> int \<Rightarrow> string option \<Rightarrow> string option \<Rightarrow> world \<Rightarrow>
   error + (energy_system \<times> world)" where
  "create_hhes_basic L em_limit period directory filename w =
     bnd (hhes_basic_system L em_limit period filename w) (\<lambda>explicit_es.
     store L ''hhes_basic.tsf'' explicit_es directory filename w)"

section \<open>Concrete worlds\<close>

text \<open>
  Load profiles of three rows each, an empty storage that accepts writes. The solar
  profile has a zero entry; the demand and the heat profile have the columns the
  builders select.
\<close>

definition three_rows :: world where
  "three_rows =
     \<lparr>files =
        [''el_demand_HH_2019.csv'' \<mapsto>
           \<lparr>columns = [''Last (MW)''], dtypes = [Float64],
            rows = [[Num 1000], [Num 1200], [Num 900]]\<rparr>,
         ''solar_HH_2019.csv'' \<mapsto>
           \<lparr>columns = [''solar''], dtypes = [Float64], rows = [[Num 3], [Num 0], [Num 6]]\<rparr>,
         ''wind_HH_2019.csv'' \<mapsto>
           \<lparr>columns = [''wind''], dtypes = [Float64], rows = [[Num 5], [Num 7], [Num 6]]\<rparr>,
         ''th_demand_HH_2019.csv'' \<mapsto>
           \<lparr>columns = [''actual_total_load''], dtypes = [Float64],
            rows = [[Num 300], [Num 280], [Num 310]]\<rparr>],
      written = [], read_only = False, rng_state = 0\<rparr>"

text \<open>
  The same load profiles in a world that differs in everything else: another file, an
  object written earlier, another state of the random generator.
\<close>

definition three_rows_later :: world where
  "three_rows_later =
     three_rows
       \<lparr>files := (files three_rows)
          (''notes.csv'' \<mapsto> \<lparr>columns = [''x''], dtypes = [Float64], rows = [[Num 1]]\<rparr>),
        written :=
          [(Some ''out'', ''old.tsf'',
            \<lparr>uid = Some ''old'', busses = [], sinks = [], sources = [], transformers = [],
              storages = [], timeframe = [], global_constraints = []\<rparr>)],
        rng_state := 42\<rparr>"

text \<open>The three-row world with a solar profile of integers, and one of integers below zero.\<close>

definition three_rows_int :: world where
  "three_rows_int =
     three_rows
       \<lparr>files := (files three_rows)
          (''solar_HH_2019.csv'' \<mapsto>
             \<lparr>columns = [''solar''], dtypes = [Int64], rows = [[Num 3], [Num 0], [Num 6]]\<rparr>)\<rparr>"

definition three_rows_negative :: world where
  "three_rows_negative =
     three_rows
       \<lparr>files := (files three_rows)
          (''solar_HH_2019.csv'' \<mapsto>
             \<lparr>columns = [''solar''], dtypes = [Int64],
              rows = [[Num (- 1)], [Num 0], [Num (- 2)]]\<rparr>)\<rparr>"

section \<open>Evaluation lemmas\<close>

lemma bnd_Inl: "bnd (Inl e) f = Inl e"
  by (simp add: bnd_def)

lemma bnd_Inr: "bnd (Inr x) f = f x"
  by (simp add: bnd_def)

lemma bnd_Inr_iff: "bnd m k = Inr y \<longleftrightarrow> (\<exists>x. m = Inr x \<and> k x = Inr y)"
  by (cases m) (simp_all add: bnd_def)

lemma bnd_cong_Inr: "(\<And>x. m = Inr x \<Longrightarrow> k x = k' x) \<Longrightarrow> bnd m k = bnd m k'"
  by (cases m) (simp_all add: bnd_def)

lemma map_sum_bnd: "map_sum id g (bnd m k) = bnd m (\<lambda>x. map_sum id g (k x))"
  by (cases m) (simp_all add: bnd_def)

lemma tessif_spec_fields:
  "construct tessif_spec = make_component"
  "AbstractEnergySystem tessif_spec = spec_AbstractEnergySystem"
  "dump tessif_spec = spec_dump"
  "mul_recip tessif_spec = exact_mul_recip"
  by (simp_all add: tessif_spec_def)

lemma tessif_unchecked_fields:
  "construct tessif_unchecked = store_component"
  "AbstractEnergySystem tessif_unchecked = store_system"
  "dump tessif_unchecked = spec_dump"
  "mul_recip tessif_unchecked = exact_mul_recip"
  by (simp_all add: tessif_unchecked_def)

lemmas ctor_defs =
  Source_def Sink_def Transformer_def Storage_def Bus_def make_component_def
  referenced_def commodity_options_def store_component_def

lemmas container_defs =
  spec_AbstractEnergySystem_def resolves_def split_ref_def bus_refs_def declared_series_def
  store_system_def

subsection \<open>Constructors\<close>

lemma referenced_mem:
  "(opt, VDict d) \<in> set kw \<Longrightarrow> opt \<in> set commodity_options \<Longrightarrow> (c, v) \<in> set d \<Longrightarrow>
   c \<in> set (referenced kw)"
  by (force simp: referenced_def)

lemma make_component_undeclared:
  "c \<in> set (referenced kw) \<Longrightarrow> c \<notin> set (ins @ outs) \<Longrightarrow>
   make_component k nm ins outs convs kw = Inl ConfigurationError"
  by (auto simp: make_component_def list_ex_iff)

lemma make_component_conversion_in:
  "((i, out), f) \<in> set convs \<Longrightarrow> i \<notin> set ins \<Longrightarrow>
   make_component k nm ins outs convs kw = Inl ConfigurationError"
  by (force simp: make_component_def list_ex_iff)

lemma make_component_conversion_out:
  "((i, out), f) \<in> set convs \<Longrightarrow> out \<notin> set outs \<Longrightarrow>
   make_component k nm ins outs convs kw = Inl ConfigurationError"
  by (force simp: make_component_def list_ex_iff)

lemma hp1_fails: "construct L = make_component \<Longrightarrow> hp1 L = Inl ConfigurationError"
  by (simp add: hp1_def Transformer_def make_component_def)

lemma hhes_ar_system_fails:
  "construct L = make_component \<Longrightarrow> hhes_ar_system L p w \<noteq> Inr es"
  unfolding hhes_ar_system_def bnd_Inr_iff by (simp add: hp1_fails)

lemma create_hhes_ar_fails:
  "construct L = make_component \<Longrightarrow> create_hhes_ar L p d f w \<noteq> Inr r"
  unfolding create_hhes_ar_def bnd_Inr_iff by (simp add: hhes_ar_system_fails)

subsection \<open>The container\<close>

lemma resolves_iff:
  "resolves comps r \<longleftrightarrow>
   (\<exists>n c x. split_ref r = Some (n, c) \<and> x \<in> set comps \<and> name x = n \<and>
      c \<in> set (inputs x @ outputs x))"
  by (cases "split_ref r") (auto simp: resolves_def list_ex_iff)

lemma spec_AbstractEnergySystem_Inr:
  assumes "spec_AbstractEnergySystem u bs sk so tr st tf gc = Inr es"
  shows "es = \<lparr>uid = u, busses = bs, sinks = sk, sources = so, transformers = tr,
                storages = st, timeframe = tf, global_constraints = gc\<rparr>"
    and "\<And>b r. b \<in> set bs \<Longrightarrow> r \<in> set (bus_refs b) \<Longrightarrow> resolves (so @ sk @ tr @ st) r"
    and "\<And>c a. c \<in> set (bs @ so @ sk @ tr @ st) \<Longrightarrow> a \<in> set (declared_series c) \<Longrightarrow>
           length a = length tf"
  using assms
  by (auto simp: spec_AbstractEnergySystem_def list_ex_iff split: if_splits)

lemma spec_AbstractEnergySystem_dangling:
  "b \<in> set bs \<Longrightarrow> r \<in> set (bus_refs b) \<Longrightarrow> \<not> resolves (so @ sk @ tr @ st) r \<Longrightarrow>
   spec_AbstractEnergySystem u bs sk so tr st tf gc = Inl ResolutionError"
  by (auto simp: spec_AbstractEnergySystem_def list_ex_iff)

lemma spec_AbstractEnergySystem_mismatch:
  "c \<in> set (bs @ so @ sk @ tr @ st) \<Longrightarrow> a \<in> set (declared_series c) \<Longrightarrow>
   length a \<noteq> length tf \<Longrightarrow>
   \<exists>e. spec_AbstractEnergySystem u bs sk so tr st tf gc = Inl e"
  by (auto simp: spec_AbstractEnergySystem_def list_ex_iff)

lemma store_system_Inr:
  "store_system u bs sk so tr st tf gc = Inr es \<Longrightarrow> uid es = u"
  by (auto simp: store_system_def)

subsection \<open>The builders\<close>

lemma store_fst: "store L dflt explicit_es d f w = Inr (es, w') \<Longrightarrow> es = explicit_es"
  by (auto simp: store_def bnd_Inr_iff)

lemma store_eq:
  "dump L = spec_dump \<Longrightarrow>
   store L dflt es d f w =
   (if read_only w then Inl IOError
    else Inr (es, w\<lparr>written := written w @ [(d, filename_or dflt f, es)]\<rparr>))"
  by (simp add: store_def spec_dump_def bnd_Inl bnd_Inr)

lemma store_Inr:
  "dump L = spec_dump \<Longrightarrow> store L dflt explicit_es d f w = Inr (es, w') \<Longrightarrow>
   es = explicit_es \<and> w' = w\<lparr>written := written w @ [(d, filename_or dflt f, explicit_es)]\<rparr>"
  by (auto simp: store_eq split: if_splits)

lemma store_outcome:
  "dump L = spec_dump \<Longrightarrow>
   map_sum id fst (store L dflt es d f w) = (if read_only w then Inl IOError else Inr es)"
  by (simp add: store_eq)

text \<open>Every system a builder returns comes out of the container's constructor.\<close>

lemma zero_costs_container:
  "create_zero_costs_es L d f w = Inr (es, w') \<Longrightarrow>
   \<exists>u bs sk so tr st tf gc. AbstractEnergySystem L u bs sk so tr st tf gc = Inr es \<and>
      date_range ''7/13/1990'' 4 = Inr tf"
  unfolding create_zero_costs_es_def bnd_Inr_iff by blast

lemma hhes_ar_container:
  "create_hhes_ar L p d f w = Inr (es, w') \<Longrightarrow>
   \<exists>u bs sk so tr st tf gc. AbstractEnergySystem L u bs sk so tr st tf gc = Inr es \<and>
      date_range ''2019-01-01'' p = Inr tf"
  unfolding create_hhes_ar_def hhes_ar_system_def bnd_Inr_iff
  by (blast dest: store_fst)

lemma hhes_basic_container:
  "create_hhes_basic L em p d f w = Inr (es, w') \<Longrightarrow>
   \<exists>bs sk so tr st tf gc. AbstractEnergySystem L f bs sk so tr st tf gc = Inr es \<and>
      date_range ''1/1/2019'' p = Inr tf"
  unfolding create_hhes_basic_def hhes_basic_system_def hhes_basic_components_def bnd_Inr_iff
  by (blast dest: store_fst)

lemma date_range_length: "date_range start p = Inr tf \<Longrightarrow> length tf = nat p"
  by (auto simp: date_range_def split: if_splits)

subsection \<open>The normalisation loop writes to \<^verbatim>\<open>pv_norm\<close> only\<close>

lemma setitem_length: "setitem a i v = Inr n \<Longrightarrow> length (vals n) = length (vals a)"
  by (auto simp: setitem_def bnd_Inr_iff split: if_splits dtype.splits)

lemma setitem_other:
  "setitem a i v = Inr n \<Longrightarrow> j \<noteq> i \<Longrightarrow> vals n ! j = vals a ! j"
  by (auto simp: setitem_def bnd_Inr_iff split: if_splits dtype.splits)

lemma setitem_dtype: "setitem a i v = Inr n \<Longrightarrow> dtype n = dtype a"
  by (auto simp: setitem_def bnd_Inr_iff split: if_splits dtype.splits)

lemma pv_norm_step_frame:
  "pv_norm_step L i a = Inr a' \<Longrightarrow> a' = a\<lparr>pv_norm := pv_norm a'\<rparr>"
  by (auto simp: pv_norm_step_def bnd_Inr_iff split: if_splits)

lemma pv_norm_step_other:
  "pv_norm_step L i a = Inr a' \<Longrightarrow> j \<noteq> i \<or> vals (pv_HH a) ! j = Num 0 \<Longrightarrow>
   vals (pv_norm a') ! j = vals (pv_norm a) ! j"
  by (auto simp: pv_norm_step_def bnd_Inr_iff setitem_other split: if_splits)

lemma pv_norm_range_frame:
  "pv_norm_range L ks a = Inr a' \<Longrightarrow> a' = a\<lparr>pv_norm := pv_norm a'\<rparr>"
proof (induction ks arbitrary: a)
  case Nil
  then show ?case by simp
next
  case (Cons i ks)
  from Cons.prems obtain a1 where s: "pv_norm_step L i a = Inr a1"
    and r: "pv_norm_range L ks a1 = Inr a'"
    by (auto simp: bnd_Inr_iff)
  from pv_norm_step_frame[OF s] have "a1 = a\<lparr>pv_norm := pv_norm a1\<rparr>" .
  moreover from Cons.IH[OF r] have "a' = a1\<lparr>pv_norm := pv_norm a'\<rparr>" .
  ultimately have "a' = (a\<lparr>pv_norm := pv_norm a1\<rparr>)\<lparr>pv_norm := pv_norm a'\<rparr>" by simp
  then show ?case by simp
qed

lemma pv_norm_range_other:
  "pv_norm_range L ks a = Inr a' \<Longrightarrow> j \<notin> set ks \<or> vals (pv_HH a) ! j = Num 0 \<Longrightarrow>
   vals (pv_norm a') ! j = vals (pv_norm a) ! j"
proof (induction ks arbitrary: a)
  case Nil
  then show ?case by simp
next
  case (Cons i ks)
  from Cons.prems(1) obtain a1 where s: "pv_norm_step L i a = Inr a1"
    and r: "pv_norm_range L ks a1 = Inr a'"
    by (auto simp: bnd_Inr_iff)
  from pv_norm_step_frame[OF s] have "a1 = a\<lparr>pv_norm := pv_norm a1\<rparr>" .
  then have same: "pv_HH a1 = pv_HH a"
    by (metis arrays.select_convs(4) arrays.surjective arrays.update_convs(6))
  from Cons.prems(2) have c: "j \<notin> set ks \<or> vals (pv_HH a1) ! j = Num 0"
    and d: "j \<noteq> i \<or> vals (pv_HH a) ! j = Num 0"
    by (auto simp: same)
  from Cons.IH[OF r c] pv_norm_step_other[OF s d] show ?case by simp
qed

lemma pv_norm_loop_frame:
  "pv_norm_loop L a = Inr a' \<Longrightarrow> a' = a\<lparr>pv_norm := pv_norm a'\<rparr>"
  unfolding pv_norm_loop_def by (rule pv_norm_range_frame)

lemma pv_norm_loop_other:
  "pv_norm_loop L a = Inr a' \<Longrightarrow>
   vals (pv_HH a) ! j = Num 0 \<or> length (vals (pv_HH a)) \<le> Suc j \<Longrightarrow>
   vals (pv_norm a') ! j = vals (pv_norm a) ! j"
  unfolding pv_norm_loop_def by (erule pv_norm_range_other) auto

lemma components_ignore_pv_norm:
  "DEMAND L (a\<lparr>pv_norm := x\<rparr>) = DEMAND L a"
  "WIND L (a\<lparr>pv_norm := x\<rparr>) = WIND L a"
  "SOLAR L (a\<lparr>pv_norm := x\<rparr>) = SOLAR L a"
  by (simp_all add: DEMAND_def WIND_def SOLAR_def)

lemma hhes_basic_components_ignore_pv_norm:
  "hhes_basic_components L em f tf (a\<lparr>pv_norm := x\<rparr>) = hhes_basic_components L em f tf a"
  by (simp add: hhes_basic_components_def components_ignore_pv_norm)

lemma hhes_basic_components_after_loop:
  "pv_norm_loop L a = Inr a' \<Longrightarrow>
   hhes_basic_components L em f tf a' = hhes_basic_components L em f tf (a\<lparr>pv_norm := x\<rparr>)"
proof -
  assume "pv_norm_loop L a = Inr a'"
  from pv_norm_loop_frame[OF this] have "a' = a\<lparr>pv_norm := pv_norm a'\<rparr>" .
  then have "hhes_basic_components L em f tf a'
      = hhes_basic_components L em f tf (a\<lparr>pv_norm := pv_norm a'\<rparr>)" by simp
  then show ?thesis by (simp only: hhes_basic_components_ignore_pv_norm)
qed

lemma hhes_basic_system_frame:
  "hhes_basic_system L em p f w =
   bnd (date_range ''1/1/2019'' p) (\<lambda>tf.
   bnd (hhes_basic_arrays L p w) (\<lambda>a.
   bnd (pv_norm_loop L a) (\<lambda>a'. hhes_basic_components L em f tf (a\<lparr>pv_norm := x\<rparr>))))"
  unfolding hhes_basic_system_def
  by (intro bnd_cong_Inr) (rule hhes_basic_components_after_loop)

subsection \<open>The builders on concrete worlds\<close>

lemmas numpy_defs =
  read_csv_def column_def values_flatten_def py_slice_def slice_to_def np_max_def
  date_range_def periods_def exact_mul_recip_def

lemma create_zero_costs_es_eval:
  "create_zero_costs_es tessif_spec d f w =
   Inr (\<lparr>uid = Some ''Zero Costs Example'',
         busses =
           [\<lparr>kind = KBus, name = ''Powerline'',
              inputs = [''Emitting Source.electricity'', ''Capped Renewable.electricity'',
                        ''Uncapped Renewable.electricity''],
              outputs = [''Demand.electricity''], conversions = [], options = []\<rparr>],
         sinks =
           [\<lparr>kind = KSink, name = ''Demand'', inputs = [''electricity''], outputs = [],
              conversions = [],
              options =
                [(''flow_rates'',
                  VDict [(''electricity'', VMinMax (VNum (Num 10)) (VNum (Num 10)))])]\<rparr>],
         sources =
           [\<lparr>kind = KSource, name = ''Emitting Source'', inputs = [],
              outputs = [''electricity''], conversions = [],
              options = [(''flow_emissions'', VDict [(''electricity'', VNum (Num 1))])]\<rparr>,
            \<lparr>kind = KSource, name = ''Capped Renewable'', inputs = [],
              outputs = [''electricity''], conversions = [],
              options =
                [(''flow_rates'',
                  VDict [(''electricity'', VMinMax (VNum (Num 0)) (VNum (Num 2)))]),
                 (''expandable'', VDict [(''electricity'', VBool True)]),
                 (''expansion_limits'',
                  VDict [(''electricity'', VMinMax (VNum (Num 2)) (VNum (Num 4)))])]\<rparr>,
            \<lparr>kind = KSource, name = ''Uncapped Renewable'', inputs = [],
              outputs = [''electricity''], conversions = [],
              options =
                [(''flow_rates'',
                  VDict [(''electricity'', VMinMax (VNum (Num 0)) (VNum (Num 1)))]),
                 (''expandable'', VDict [(''electricity'', VBool True)]),
                 (''timeseries'',
                  VDict [(''electricity'',
                    VMinMax (VArr [Num 1, Num 2, Num 3, Num 1])
                            (VArr [Num 1, Num 2, Num 3, Num 1]))]),
                 (''expansion_limits'',
                  VDict [(''electricity'', VMinMax (VNum (Num 3)) (VNum PInf))])]\<rparr>],
         transformers = [], storages = [],
         timeframe =
           [(''7/13/1990'', 0), (''7/13/1990'', 1), (''7/13/1990'', 2), (''7/13/1990'', 3)],
         global_constraints = [(''emissions'', VNum (Num 8))]\<rparr>,
        w)"
  by (simp add: create_zero_costs_es_def date_range_def emitting_source_def
      capped_renewable_def uncapped_renewable_def electricity_line_def demand_def
      tessif_spec_fields ctor_defs bnd_Inl bnd_Inr container_defs uncapped_min_def
      uncapped_max_def upt_rec)

lemmas basic_defs =
  create_hhes_basic_def hhes_basic_system_def hhes_basic_arrays_def
  pv_norm_loop_def pv_norm_step_def setitem_def
  hhes_basic_components_def store_def spec_dump_def filename_or_def
  BELECTRICITY_def DEMAND_def EXCESS_def WIND_def GAS_SUPPLY_def GAS_PIPELINE_def SOLAR_def
  GAS_POWERPLANT_def ELECTRICITY_IMPORT_def basic_global_constraints_def

lemma three_rows_arrays:
  "hhes_basic_arrays tessif_spec 3 three_rows =
   Inr \<lparr>de_HH = \<lparr>dtype = Float64, vals = [Num 1000, Num 1200, Num 900]\<rparr>, max_de = Num 1200,
        de_HH_norm = \<lparr>dtype = Float64, vals = [Num (5 / 6), Num 1, Num (3 / 4)]\<rparr>,
        pv_HH = \<lparr>dtype = Float64, vals = [Num 3, Num 0, Num 6]\<rparr>, max_pv = Num 6,
        pv_norm = \<lparr>dtype = Float64, vals = [Num 3, Num 0, Num 6]\<rparr>,
        wo_HH = \<lparr>dtype = Float64, vals = [Num 5, Num 7, Num 6]\<rparr>, max_wo = Num 7\<rparr>"
  by (simp add: hhes_basic_arrays_def three_rows_def numpy_defs tessif_spec_fields
      bnd_Inl bnd_Inr)

lemma three_rows_loop:
  "\<exists>a'. pv_norm_loop tessif_spec (projr (hhes_basic_arrays tessif_spec 3 three_rows)) = Inr a'
     \<and> pv_norm a' = \<lparr>dtype = Float64, vals = [Num (1 / 2), Num 0, Num 6]\<rparr>"
  by (simp add: three_rows_arrays pv_norm_loop_def pv_norm_step_def setitem_def
      tessif_spec_fields exact_mul_recip_def bnd_Inl bnd_Inr upt_rec)

lemma to_int64_half: "to_int64 (Num (1 / 2)) = Inr (Num 0)"
  by code_simp

lemma three_rows_int_loop:
  "\<exists>a a'. hhes_basic_arrays tessif_spec 3 three_rows_int = Inr a
     \<and> pv_HH a = \<lparr>dtype = Int64, vals = [Num 3, Num 0, Num 6]\<rparr>
     \<and> pv_norm_loop tessif_spec a = Inr a'
     \<and> pv_norm a' = \<lparr>dtype = Int64, vals = [Num 0, Num 0, Num 6]\<rparr>"
  by (simp add: hhes_basic_arrays_def three_rows_int_def three_rows_def numpy_defs
      pv_norm_loop_def pv_norm_step_def setitem_def
      tessif_spec_fields bnd_Inl bnd_Inr upt_rec to_int64_half del: to_int64.simps)

lemma three_rows_negative_overflow:
  "create_hhes_basic tessif_spec 99999999999 3 None None three_rows_negative = Inl OverflowError"
  by (simp add: basic_defs three_rows_negative_def three_rows_def numpy_defs
      tessif_spec_fields ctor_defs bnd_Inl bnd_Inr container_defs upt_rec)

lemma hhes_basic_three_rows:
  "\<exists>es. create_hhes_basic tessif_spec 99999999999 3 None None three_rows =
           Inr (es, three_rows\<lparr>written := [(None, ''hhes_basic.tsf'', es)]\<rparr>)
     \<and> uid es = None
     \<and> length (timeframe es) = 3
     \<and> map name (nodes es) =
         [''powerline'', ''imported electricity'', ''solar'', ''wind'', ''demand'', ''excess'',
          ''gas power plant'']
     \<and> map bus_refs (busses es) =
         [[''gas power plant.electricity'', ''imported electricity.electricity'',
           ''solar.electricity'', ''wind.electricity'', ''demand.electricity'',
           ''excess.electricity'']]
     \<and> concat (map declared_series (nodes es)) =
         [[Num 3, Num 0, Num 6], [Num 3, Num 0, Num 6], [Num 5, Num 7, Num 6],
          [Num 5, Num 7, Num 6], [Num 1000, Num 1200, Num 900], [Num 1000, Num 1200, Num 900]]"
  by (simp add: basic_defs three_rows_def numpy_defs tessif_spec_fields ctor_defs
      bnd_Inl bnd_Inr container_defs upt_rec nodes_def)

lemma hhes_basic_period_2:
  "create_hhes_basic tessif_spec 99999999999 2 None None three_rows = Inl DataShapeError"
  by (simp add: basic_defs three_rows_def numpy_defs tessif_spec_fields ctor_defs
      bnd_Inl bnd_Inr container_defs upt_rec)

lemma hhes_basic_system_three_rows:
  "\<exists>es. hhes_basic_system tessif_spec 99999999999 3 None three_rows = Inr es"
  by (simp add: basic_defs three_rows_def numpy_defs tessif_spec_fields ctor_defs
      bnd_Inl bnd_Inr container_defs upt_rec)

lemmas ar_defs =
  create_hhes_ar_def hhes_ar_system_def store_def spec_dump_def filename_or_def
  gass_def chp1_def hp1_def pv1_def won1_def est_def p2h_def imel_def imth_def
  demand_el_def demand_th_def excess_el_def excess_th_def gas_pipeline_def powerline_def
  district_heating_def ar_global_constraints_def in_stat_def cfba_def

lemma hhes_ar_unchecked_three_rows:
  "\<exists>es. create_hhes_ar tessif_unchecked 3 (Some ''out'') None three_rows =
           Inr (es, three_rows\<lparr>written := [(Some ''out'', ''hhes.tsf'', es)]\<rparr>)
     \<and> uid es = Some ''Energy System Hamburg''
     \<and> length (timeframe es) = 3
     \<and> map name (nodes es) =
         [''gas pipeline'', ''powerline'', ''district heating pipeline'',
          ''gas supply'', ''solar'', ''wind'', ''imported el'', ''imported th'',
          ''demand el'', ''demand th'', ''excess el'', ''excess th'',
          ''gas power plant'', ''heat power plant'', ''power to heat'',
          ''electrical storage'']"
  by (simp add: ar_defs three_rows_def numpy_defs tessif_unchecked_fields ctor_defs
      bnd_Inl bnd_Inr container_defs upt_rec nodes_def)

lemma hhes_ar_system_unchecked_three_rows:
  "\<exists>es. hhes_ar_system tessif_unchecked 3 three_rows = Inr es"
  by (simp add: ar_defs three_rows_def numpy_defs tessif_unchecked_fields ctor_defs
      bnd_Inl bnd_Inr container_defs upt_rec)

lemma hhes_ar_spec_three_rows:
  "create_hhes_ar tessif_spec 3 (Some ''out'') None three_rows = Inl ConfigurationError"
  by (simp add: ar_defs three_rows_def numpy_defs tessif_spec_fields ctor_defs
      bnd_Inl bnd_Inr container_defs upt_rec)

section \<open>Constructors reject undeclared commodities\<close>

text \<open>
  C1. Each of the five constructors of the specification's framework fails with a
  ConfigurationError whenever one of the per-commodity options (\<^verbatim>\<open>flow_rates\<close>,
  \<^verbatim>\<open>flow_costs\<close>, \<^verbatim>\<open>flow_emissions\<close>, \<^verbatim>\<open>timeseries\<close>, \<^verbatim>\<open>expandable\<close>, \<^verbatim>\<open>expansion_costs\<close>,
  \<^verbatim>\<open>expansion_limits\<close>) names a commodity that the component does not declare among its
  inputs or outputs. A Transformer whose conversions mention an input commodity that is
  not among its inputs, or an output commodity that is not among its outputs, fails in
  the same way, and the heat power plant \<^verbatim>\<open>hp1\<close> of \<^verbatim>\<open>create_hhes_ar\<close> is such a
  Transformer.
\<close>

theorem constructor_rejects_undeclared_commodity:
  "((opt, VDict d) \<in> set kw \<and> opt \<in> set commodity_options \<and> (c, v) \<in> set d \<and> c \<notin> set outs
      \<longrightarrow> Source tessif_spec nm outs kw = Inl ConfigurationError)
   \<and> ((opt, VDict d) \<in> set kw \<and> opt \<in> set commodity_options \<and> (c, v) \<in> set d \<and> c \<notin> set ins
      \<longrightarrow> Sink tessif_spec nm ins kw = Inl ConfigurationError)
   \<and> ((opt, VDict d) \<in> set kw \<and> opt \<in> set commodity_options \<and> (c, v) \<in> set d
        \<and> c \<notin> set ins \<and> c \<notin> set outs
      \<longrightarrow> Transformer tessif_spec nm ins outs convs kw = Inl ConfigurationError)
   \<and> ((opt, VDict d) \<in> set kw \<and> opt \<in> set commodity_options \<and> (c, v) \<in> set d
        \<and> c \<noteq> inp \<and> c \<noteq> outp
      \<longrightarrow> Storage tessif_spec nm inp outp kw = Inl ConfigurationError)
   \<and> ((opt, VDict d) \<in> set kw \<and> opt \<in> set commodity_options \<and> (c, v) \<in> set d
        \<and> c \<notin> set ins \<and> c \<notin> set outs
      \<longrightarrow> Bus tessif_spec nm ins outs kw = Inl ConfigurationError)
   \<and> (((i, out), f) \<in> set convs \<and> i \<notin> set ins
      \<longrightarrow> Transformer tessif_spec nm ins outs convs kw = Inl ConfigurationError)
   \<and> (((i, out), f) \<in> set convs \<and> out \<notin> set outs
      \<longrightarrow> Transformer tessif_spec nm ins outs convs kw = Inl ConfigurationError)
   \<and> hp1 tessif_spec = Inl ConfigurationError"
proof -
  have und: "make_component k nm' ins' outs' convs' kw = Inl ConfigurationError"
    if "(opt, VDict d) \<in> set kw" "opt \<in> set commodity_options" "(c, v) \<in> set d"
       "c \<notin> set (ins' @ outs')" for k nm' ins' outs' convs'
    by (rule make_component_undeclared[OF referenced_mem[OF that(1,2,3)] that(4)])
  have src: "(opt, VDict d) \<in> set kw \<and> opt \<in> set commodity_options \<and> (c, v) \<in> set d
      \<and> c \<notin> set outs \<longrightarrow> Source tessif_spec nm outs kw = Inl ConfigurationError"
    unfolding Source_def tessif_spec_fields by (intro impI, elim conjE, rule und) simp_all
  have snk: "(opt, VDict d) \<in> set kw \<and> opt \<in> set commodity_options \<and> (c, v) \<in> set d
      \<and> c \<notin> set ins \<longrightarrow> Sink tessif_spec nm ins kw = Inl ConfigurationError"
    unfolding Sink_def tessif_spec_fields by (intro impI, elim conjE, rule und) simp_all
  have tr1: "(opt, VDict d) \<in> set kw \<and> opt \<in> set commodity_options \<and> (c, v) \<in> set d
        \<and> c \<notin> set ins \<and> c \<notin> set outs
      \<longrightarrow> Transformer tessif_spec nm ins outs convs kw = Inl ConfigurationError"
    unfolding Transformer_def tessif_spec_fields
    by (intro impI, elim conjE, rule und) simp_all
  have sto: "(opt, VDict d) \<in> set kw \<and> opt \<in> set commodity_options \<and> (c, v) \<in> set d
        \<and> c \<noteq> inp \<and> c \<noteq> outp
      \<longrightarrow> Storage tessif_spec nm inp outp kw = Inl ConfigurationError"
    unfolding Storage_def tessif_spec_fields
    by (intro impI, elim conjE, rule und) simp_all
  have bus: "(opt, VDict d) \<in> set kw \<and> opt \<in> set commodity_options \<and> (c, v) \<in> set d
        \<and> c \<notin> set ins \<and> c \<notin> set outs
      \<longrightarrow> Bus tessif_spec nm ins outs kw = Inl ConfigurationError"
    unfolding Bus_def tessif_spec_fields
    by (intro impI, elim conjE, rule und) simp_all
  have tr2: "((i, out), f) \<in> set convs \<and> i \<notin> set ins
      \<longrightarrow> Transformer tessif_spec nm ins outs convs kw = Inl ConfigurationError"
    unfolding Transformer_def tessif_spec_fields
    by (intro impI, elim conjE) (rule make_component_conversion_in)
  have tr3: "((i, out), f) \<in> set convs \<and> out \<notin> set outs
      \<longrightarrow> Transformer tessif_spec nm ins outs convs kw = Inl ConfigurationError"
    unfolding Transformer_def tessif_spec_fields
    by (intro impI, elim conjE) (rule make_component_conversion_out)
  have hp: "hp1 tessif_spec = Inl ConfigurationError"
    by (rule hp1_fails) (rule tessif_spec_fields)
  from src snk tr1 sto bus tr2 tr3 hp show ?thesis by (intro conjI)
qed

theorem constructor_rejects_undeclared_commodity_witness:
  "(''flow_costs'', VDict [(''waste'', VNum (Num 0))])
      \<in> set [(''flow_costs'', VDict [(''waste'', VNum (Num 0))])]
   \<and> ''flow_costs'' \<in> set commodity_options
   \<and> (''waste'', VNum (Num 0)) \<in> set [(''waste'', VNum (Num 0))]
   \<and> ''waste'' \<notin> set [''gas''] \<and> ''waste'' \<notin> set [''hot_water'']
   \<and> ''waste'' \<noteq> ''electricity''
   \<and> ((''waste'', ''steam''), Num 1) \<in> set [((''waste'', ''steam''), Num 1)]
   \<and> ''steam'' \<notin> set [''hot_water'']
   \<and> Source tessif_spec ''heat power plant'' [''hot_water'']
        [(''flow_costs'', VDict [(''waste'', VNum (Num 0))])] = Inl ConfigurationError
   \<and> Sink tessif_spec ''heat power plant'' [''gas'']
        [(''flow_costs'', VDict [(''waste'', VNum (Num 0))])] = Inl ConfigurationError
   \<and> Transformer tessif_spec ''heat power plant'' [''gas''] [''hot_water'']
        [((''waste'', ''steam''), Num 1)]
        [(''flow_costs'', VDict [(''waste'', VNum (Num 0))])] = Inl ConfigurationError
   \<and> Storage tessif_spec ''heat power plant'' ''electricity'' ''electricity''
        [(''flow_costs'', VDict [(''waste'', VNum (Num 0))])] = Inl ConfigurationError
   \<and> Bus tessif_spec ''heat power plant'' [''gas''] [''hot_water'']
        [(''flow_costs'', VDict [(''waste'', VNum (Num 0))])] = Inl ConfigurationError"
  using constructor_rejects_undeclared_commodity
    [of "''flow_costs''" "[(''waste'', VNum (Num 0))]"
        "[(''flow_costs'', VDict [(''waste'', VNum (Num 0))])]" "''waste''" "VNum (Num 0)"
        "[''hot_water'']" "''heat power plant''" "[''gas'']"
        "[((''waste'', ''steam''), Num 1)]" "''electricity''" "''electricity''"
        "''waste''" "''steam''" "Num 1"]
  by (simp add: commodity_options_def)

section \<open>What the zero costs example returns\<close>

text \<open>
  C4. \<^verbatim>\<open>create_zero_costs_es\<close> returns a system of exactly five nodes: the bus and the
  four components (one source with emissions, two renewable sources, one demand sink),
  over a time frame of four hourly steps, with the emissions constraint stored as 8.
\<close>

theorem create_zero_costs_es_five_nodes:
  "\<exists>es. create_zero_costs_es tessif_spec directory filename w = Inr (es, w)
     \<and> length (nodes es) = 5
     \<and> map name (nodes es) =
         [''Powerline'', ''Emitting Source'', ''Capped Renewable'', ''Uncapped Renewable'',
          ''Demand'']
     \<and> map kind (nodes es) = [KBus, KSource, KSource, KSource, KSink]
     \<and> map name (filter (\<lambda>c. map_of (options c) ''flow_emissions'' \<noteq> None) (sources es)) =
         [''Emitting Source'']
     \<and> timeframe es =
         [(''7/13/1990'', 0), (''7/13/1990'', 1), (''7/13/1990'', 2), (''7/13/1990'', 3)]
     \<and> map_of (global_constraints es) ''emissions'' = Some (VNum (Num 8))"
  by (simp add: create_zero_costs_es_eval nodes_def)

text \<open>
  C9. \<^verbatim>\<open>create_zero_costs_es\<close> writes nothing: for every directory, file name and world
  it returns one and the same system and leaves the world as it was. With any framework,
  its result is that of the call with both arguments at \<^verbatim>\<open>None\<close> in any other world, beside
  the world it hands back unchanged.
\<close>

theorem create_zero_costs_es_no_write:
  "(\<exists>es. \<forall>directory filename w.
       create_zero_costs_es tessif_spec directory filename w = Inr (es, w))
   \<and> create_zero_costs_es L directory filename w =
       map_sum id (\<lambda>r. (fst r, w)) (create_zero_costs_es L None None w0)"
proof
  show "\<exists>es. \<forall>directory filename w.
       create_zero_costs_es tessif_spec directory filename w = Inr (es, w)"
    by (simp add: create_zero_costs_es_eval)
  show "create_zero_costs_es L directory filename w =
       map_sum id (\<lambda>r. (fst r, w)) (create_zero_costs_es L None None w0)"
    by (simp add: create_zero_costs_es_def map_sum_bnd)
qed

section \<open>Bus references\<close>

text \<open>The gas pipeline of \<^verbatim>\<open>create_hhes_ar\<close> names a component \<^verbatim>\<open>chp2\<close>.\<close>

lemma gas_pipeline_eval:
  "gas_pipeline tessif_spec = Inr \<lparr>kind = KBus, name = ''gas pipeline'',
      inputs = [''gas supply.gas''],
      outputs = [''gas power plant.gas'', ''chp2.gas'', ''heat power plant.gas''],
      conversions = [],
      options = [(''region'', VStr ''HH''), (''node_type'', VStr ''gas_pipeline''),
        (''component'', VStr ''bus''), (''sector'', VStr ''coupled''),
        (''carrier'', VStr ''gas'')]\<rparr>"
  by (simp add: gas_pipeline_def tessif_spec_fields ctor_defs)

lemma gass_chp1_names:
  "name (projr (gass tessif_spec)) = ''gas supply''"
  "name (projr (chp1 tessif_spec)) = ''gas power plant''"
  by (simp_all add: gass_def chp1_def tessif_spec_fields ctor_defs)

text \<open>
  C2. In every system the container of the specification returns, and so in every system
  a builder returns with it, each reference \<^verbatim>\<open>"<component>.<commodity>"\<close> of a Bus names
  a component of the system that declares the commodity among its inputs or outputs;
  when a Bus of the components handed to the container has a reference that no component
  answers, the container fails with a ResolutionError and returns no system.
\<close>

theorem bus_references_resolve:
  "(spec_AbstractEnergySystem u bs sk so tr st tf gc = Inr es
      \<and> b \<in> set (busses es) \<and> r \<in> set (inputs b @ outputs b)
     \<longrightarrow> (\<exists>n c x. split_ref r = Some (n, c)
            \<and> x \<in> set (sources es @ sinks es @ transformers es @ storages es)
            \<and> name x = n \<and> c \<in> set (inputs x @ outputs x)))
   \<and> (b \<in> set bs \<and> r \<in> set (inputs b @ outputs b)
      \<and> \<not> (\<exists>n c x. split_ref r = Some (n, c) \<and> x \<in> set (so @ sk @ tr @ st)
            \<and> name x = n \<and> c \<in> set (inputs x @ outputs x))
     \<longrightarrow> spec_AbstractEnergySystem u bs sk so tr st tf gc = Inl ResolutionError)
   \<and> (AbstractEnergySystem L = spec_AbstractEnergySystem
      \<and> (create_zero_costs_es L d f w = Inr (es, w') \<or> create_hhes_ar L p d f w = Inr (es, w')
        \<or> create_hhes_basic L em p d f w = Inr (es, w'))
      \<and> b \<in> set (busses es) \<and> r \<in> set (inputs b @ outputs b)
     \<longrightarrow> (\<exists>n c x. split_ref r = Some (n, c)
            \<and> x \<in> set (sources es @ sinks es @ transformers es @ storages es)
            \<and> name x = n \<and> c \<in> set (inputs x @ outputs x)))"
proof -
  have ok: "\<exists>n c x. split_ref r = Some (n, c)
            \<and> x \<in> set (sources es @ sinks es @ transformers es @ storages es)
            \<and> name x = n \<and> c \<in> set (inputs x @ outputs x)"
    if "spec_AbstractEnergySystem u bs sk so tr st tf gc = Inr es" "b \<in> set (busses es)"
       "r \<in> set (inputs b @ outputs b)" for u bs sk so tr st tf gc
  proof -
    note facts = spec_AbstractEnergySystem_Inr[OF that(1)]
    have "b \<in> set bs" using that(2) facts(1) by simp
    moreover have "r \<in> set (bus_refs b)" using that(3) by (simp add: bus_refs_def)
    ultimately have "resolves (so @ sk @ tr @ st) r" by (rule facts(2))
    then show ?thesis using facts(1) by (simp add: resolves_iff)
  qed
  have bad: "spec_AbstractEnergySystem u bs sk so tr st tf gc = Inl ResolutionError"
    if "b \<in> set bs" "r \<in> set (inputs b @ outputs b)"
       "\<not> (\<exists>n c x. split_ref r = Some (n, c) \<and> x \<in> set (so @ sk @ tr @ st)
            \<and> name x = n \<and> c \<in> set (inputs x @ outputs x))"
  proof (rule spec_AbstractEnergySystem_dangling[OF that(1)])
    show "r \<in> set (bus_refs b)" using that(2) by (simp add: bus_refs_def)
    show "\<not> resolves (so @ sk @ tr @ st) r" using that(3) unfolding resolves_iff .
  qed
  have built: "\<exists>u bs sk so tr st tf gc. AbstractEnergySystem L u bs sk so tr st tf gc = Inr es"
    if "create_zero_costs_es L d f w = Inr (es, w') \<or> create_hhes_ar L p d f w = Inr (es, w')
        \<or> create_hhes_basic L em p d f w = Inr (es, w')"
    using that
  proof (elim disjE)
    assume "create_zero_costs_es L d f w = Inr (es, w')"
    from zero_costs_container[OF this] show ?thesis by (elim exE conjE) (intro exI)
  next
    assume "create_hhes_ar L p d f w = Inr (es, w')"
    from hhes_ar_container[OF this] show ?thesis by (elim exE conjE) (intro exI)
  next
    assume "create_hhes_basic L em p d f w = Inr (es, w')"
    from hhes_basic_container[OF this] show ?thesis by (elim exE conjE) (intro exI)
  qed
  have c1: "spec_AbstractEnergySystem u bs sk so tr st tf gc = Inr es
      \<and> b \<in> set (busses es) \<and> r \<in> set (inputs b @ outputs b)
     \<longrightarrow> (\<exists>n c x. split_ref r = Some (n, c)
            \<and> x \<in> set (sources es @ sinks es @ transformers es @ storages es)
            \<and> name x = n \<and> c \<in> set (inputs x @ outputs x))"
    using ok by blast
  have c2: "b \<in> set bs \<and> r \<in> set (inputs b @ outputs b)
      \<and> \<not> (\<exists>n c x. split_ref r = Some (n, c) \<and> x \<in> set (so @ sk @ tr @ st)
            \<and> name x = n \<and> c \<in> set (inputs x @ outputs x))
     \<longrightarrow> spec_AbstractEnergySystem u bs sk so tr st tf gc = Inl ResolutionError"
    using bad by blast
  have c3: "AbstractEnergySystem L = spec_AbstractEnergySystem
      \<and> (create_zero_costs_es L d f w = Inr (es, w') \<or> create_hhes_ar L p d f w = Inr (es, w')
        \<or> create_hhes_basic L em p d f w = Inr (es, w'))
      \<and> b \<in> set (busses es) \<and> r \<in> set (inputs b @ outputs b)
     \<longrightarrow> (\<exists>n c x. split_ref r = Some (n, c)
            \<and> x \<in> set (sources es @ sinks es @ transformers es @ storages es)
            \<and> name x = n \<and> c \<in> set (inputs x @ outputs x))"
  proof (intro impI, elim conjE)
    assume s: "AbstractEnergySystem L = spec_AbstractEnergySystem"
      and a: "create_zero_costs_es L d f w = Inr (es, w') \<or> create_hhes_ar L p d f w = Inr (es, w')
        \<or> create_hhes_basic L em p d f w = Inr (es, w')"
      and b: "b \<in> set (busses es)" and r: "r \<in> set (inputs b @ outputs b)"
    from built[OF a] obtain u bs sk so tr st tf gc
      where "AbstractEnergySystem L u bs sk so tr st tf gc = Inr es" by blast
    then have "spec_AbstractEnergySystem u bs sk so tr st tf gc = Inr es" by (simp only: s)
    from ok[OF this b r] show "\<exists>n c x. split_ref r = Some (n, c)
            \<and> x \<in> set (sources es @ sinks es @ transformers es @ storages es)
            \<and> name x = n \<and> c \<in> set (inputs x @ outputs x)" .
  qed
  from c1 c2 c3 show ?thesis by (intro conjI)
qed

theorem bus_references_resolve_witness:
  "(\<exists>es b. create_hhes_basic tessif_spec 99999999999 3 None None three_rows =
            Inr (es, three_rows\<lparr>written := [(None, ''hhes_basic.tsf'', es)]\<rparr>)
      \<and> b \<in> set (busses es) \<and> ''solar.electricity'' \<in> set (inputs b @ outputs b)
      \<and> (\<exists>n c x. split_ref ''solar.electricity'' = Some (n, c)
            \<and> x \<in> set (sources es @ sinks es @ transformers es @ storages es)
            \<and> name x = n \<and> c \<in> set (inputs x @ outputs x)))
   \<and> projr (gas_pipeline tessif_spec) \<in> set [projr (gas_pipeline tessif_spec)]
   \<and> ''chp2.gas'' \<in> set (inputs (projr (gas_pipeline tessif_spec))
                           @ outputs (projr (gas_pipeline tessif_spec)))
   \<and> \<not> (\<exists>n c x. split_ref ''chp2.gas'' = Some (n, c)
            \<and> x \<in> set ([projr (gass tessif_spec)] @ [] @ [projr (chp1 tessif_spec)] @ [])
            \<and> name x = n \<and> c \<in> set (inputs x @ outputs x))
   \<and> spec_AbstractEnergySystem (Some ''Energy System Hamburg'') [projr (gas_pipeline tessif_spec)]
        [] [projr (gass tessif_spec)] [projr (chp1 tessif_spec)] [] [] ar_global_constraints
      = Inl ResolutionError"
proof -
  obtain es where es:
    "create_hhes_basic tessif_spec 99999999999 3 None None three_rows =
       Inr (es, three_rows\<lparr>written := [(None, ''hhes_basic.tsf'', es)]\<rparr>)"
    and refs: "map bus_refs (busses es) =
         [[''gas power plant.electricity'', ''imported electricity.electricity'',
           ''solar.electricity'', ''wind.electricity'', ''demand.electricity'',
           ''excess.electricity'']]"
    using hhes_basic_three_rows by (elim exE conjE)
  from refs obtain b where b: "busses es = [b]"
    and bb: "bus_refs b =
         [''gas power plant.electricity'', ''imported electricity.electricity'',
           ''solar.electricity'', ''wind.electricity'', ''demand.electricity'',
           ''excess.electricity'']"
    by (cases "busses es") simp_all
  have mem1: "b \<in> set (busses es)" by (simp add: b)
  have mem2: "''solar.electricity'' \<in> set (inputs b @ outputs b)"
    using bb by (simp add: bus_refs_def)
  have hyp1:
    "AbstractEnergySystem tessif_spec = spec_AbstractEnergySystem
     \<and> (create_zero_costs_es tessif_spec None None three_rows =
        Inr (es, three_rows\<lparr>written := [(None, ''hhes_basic.tsf'', es)]\<rparr>)
      \<or> create_hhes_ar tessif_spec 3 None None three_rows =
        Inr (es, three_rows\<lparr>written := [(None, ''hhes_basic.tsf'', es)]\<rparr>)
      \<or> create_hhes_basic tessif_spec 99999999999 3 None None three_rows =
        Inr (es, three_rows\<lparr>written := [(None, ''hhes_basic.tsf'', es)]\<rparr>))
     \<and> b \<in> set (busses es) \<and> ''solar.electricity'' \<in> set (inputs b @ outputs b)"
    using es mem1 mem2 tessif_spec_fields(2) by (intro conjI disjI2)
  have first: "\<exists>n c x. split_ref ''solar.electricity'' = Some (n, c)
            \<and> x \<in> set (sources es @ sinks es @ transformers es @ storages es)
            \<and> name x = n \<and> c \<in> set (inputs x @ outputs x)"
    by (rule bus_references_resolve[where es = es and b = b and r = "''solar.electricity''"
        and L = tessif_spec
        and em = 99999999999 and p = 3 and d = None and f = None and w = three_rows
        and w' = "three_rows\<lparr>written := [(None, ''hhes_basic.tsf'', es)]\<rparr>",
        THEN conjunct2, THEN conjunct2, THEN mp, OF hyp1])
  have sp2: "split_ref ''chp2.gas'' = Some (''chp2'', ''gas'')"
    by (simp add: split_ref_def)
  have dangling: "\<not> (\<exists>n c x. split_ref ''chp2.gas'' = Some (n, c)
            \<and> x \<in> set ([projr (gass tessif_spec)] @ [] @ [projr (chp1 tessif_spec)] @ [])
            \<and> name x = n \<and> c \<in> set (inputs x @ outputs x))"
    using gass_chp1_names by (auto simp: sp2)
  have in_pipe: "''chp2.gas'' \<in> set (inputs (projr (gas_pipeline tessif_spec))
                           @ outputs (projr (gas_pipeline tessif_spec)))"
    by (simp add: gas_pipeline_eval)
  have hyp2:
    "projr (gas_pipeline tessif_spec) \<in> set [projr (gas_pipeline tessif_spec)]
     \<and> ''chp2.gas'' \<in> set (inputs (projr (gas_pipeline tessif_spec))
                           @ outputs (projr (gas_pipeline tessif_spec)))
     \<and> \<not> (\<exists>n c x. split_ref ''chp2.gas'' = Some (n, c)
            \<and> x \<in> set ([projr (gass tessif_spec)] @ [] @ [projr (chp1 tessif_spec)] @ [])
            \<and> name x = n \<and> c \<in> set (inputs x @ outputs x))"
    using in_pipe dangling by (intro conjI) simp_all
  have second: "spec_AbstractEnergySystem (Some ''Energy System Hamburg'')
        [projr (gas_pipeline tessif_spec)] [] [projr (gass tessif_spec)]
        [projr (chp1 tessif_spec)] [] [] ar_global_constraints = Inl ResolutionError"
    by (rule bus_references_resolve[where bs = "[projr (gas_pipeline tessif_spec)]"
        and b = "projr (gas_pipeline tessif_spec)"
        and r = "''chp2.gas''" and so = "[projr (gass tessif_spec)]" and sk = "[]"
        and tr = "[projr (chp1 tessif_spec)]"
        and st = "[]" and u = "Some ''Energy System Hamburg''" and tf = "[]"
        and gc = ar_global_constraints, THEN conjunct2, THEN conjunct1, THEN mp, OF hyp2])
  have A: "\<exists>es b. create_hhes_basic tessif_spec 99999999999 3 None None three_rows =
            Inr (es, three_rows\<lparr>written := [(None, ''hhes_basic.tsf'', es)]\<rparr>)
      \<and> b \<in> set (busses es) \<and> ''solar.electricity'' \<in> set (inputs b @ outputs b)
      \<and> (\<exists>n c x. split_ref ''solar.electricity'' = Some (n, c)
            \<and> x \<in> set (sources es @ sinks es @ transformers es @ storages es)
            \<and> name x = n \<and> c \<in> set (inputs x @ outputs x))"
    using es mem1 mem2 first by (intro exI[of _ es] exI[of _ b] conjI)
  have B: "projr (gas_pipeline tessif_spec) \<in> set [projr (gas_pipeline tessif_spec)]" by simp
  from A B in_pipe dangling second show ?thesis by (intro conjI)
qed

section \<open>Time series and the time frame\<close>

lemma uncapped_renewable_series:
  "[Num 1, Num 2, Num 3, Num 1] \<in> set (declared_series (projr (uncapped_renewable tessif_spec)))"
  by (simp add: uncapped_renewable_def tessif_spec_fields ctor_defs declared_series_def
      uncapped_min_def uncapped_max_def)

text \<open>
  C3. In every system the container of the specification returns, every time series
  declared on a node has as many rows as the time frame has steps, and a series of
  another length makes the container fail instead of returning a system. So a system
  returned with it by \<^verbatim>\<open>create_hhes_ar\<close> or \<^verbatim>\<open>create_hhes_basic\<close> has \<open>nat p\<close> time steps
  and series of \<open>nat p\<close> rows for the \<^verbatim>\<open>periods\<close>/\<^verbatim>\<open>period\<close> argument \<open>p\<close>, and one
  returned by \<^verbatim>\<open>create_zero_costs_es\<close> has four of each.
\<close>

theorem series_length_is_timeframe_length:
  "(spec_AbstractEnergySystem u bs sk so tr st tf gc = Inr es
      \<and> c \<in> set (nodes es) \<and> a \<in> set (declared_series c)
     \<longrightarrow> length a = length (timeframe es))
   \<and> (c \<in> set (bs @ so @ sk @ tr @ st) \<and> a \<in> set (declared_series c) \<and> length a \<noteq> length tf
     \<longrightarrow> (\<exists>e. spec_AbstractEnergySystem u bs sk so tr st tf gc = Inl e))
   \<and> (AbstractEnergySystem L = spec_AbstractEnergySystem
      \<and> (create_hhes_ar L p d f w = Inr (es, w') \<or> create_hhes_basic L em p d f w = Inr (es, w'))
      \<and> c \<in> set (nodes es) \<and> a \<in> set (declared_series c)
     \<longrightarrow> length (timeframe es) = nat p \<and> length a = nat p)
   \<and> (AbstractEnergySystem L = spec_AbstractEnergySystem
      \<and> create_zero_costs_es L d f w = Inr (es, w')
      \<and> c \<in> set (nodes es) \<and> a \<in> set (declared_series c)
     \<longrightarrow> length (timeframe es) = 4 \<and> length a = 4)"
proof -
  have ok: "length a = length tf \<and> timeframe es = tf"
    if "spec_AbstractEnergySystem u bs sk so tr st tf gc = Inr es" "c \<in> set (nodes es)"
       "a \<in> set (declared_series c)" for u bs sk so tr st tf gc
  proof -
    note facts = spec_AbstractEnergySystem_Inr[OF that(1)]
    have "c \<in> set (bs @ so @ sk @ tr @ st)"
      using that(2) facts(1) by (simp add: nodes_def)
    from facts(3)[OF this that(3)] facts(1) show ?thesis by simp
  qed
  have c1: "spec_AbstractEnergySystem u bs sk so tr st tf gc = Inr es
      \<and> c \<in> set (nodes es) \<and> a \<in> set (declared_series c)
     \<longrightarrow> length a = length (timeframe es)"
  proof (intro impI, elim conjE)
    assume "spec_AbstractEnergySystem u bs sk so tr st tf gc = Inr es" "c \<in> set (nodes es)"
      "a \<in> set (declared_series c)"
    from ok[OF this] show "length a = length (timeframe es)" by simp
  qed
  have c2: "c \<in> set (bs @ so @ sk @ tr @ st) \<and> a \<in> set (declared_series c)
      \<and> length a \<noteq> length tf
     \<longrightarrow> (\<exists>e. spec_AbstractEnergySystem u bs sk so tr st tf gc = Inl e)"
    using spec_AbstractEnergySystem_mismatch[of c bs so sk tr st a tf u gc] by simp
  have c3: "AbstractEnergySystem L = spec_AbstractEnergySystem
      \<and> (create_hhes_ar L p d f w = Inr (es, w') \<or> create_hhes_basic L em p d f w = Inr (es, w'))
      \<and> c \<in> set (nodes es) \<and> a \<in> set (declared_series c)
     \<longrightarrow> length (timeframe es) = nat p \<and> length a = nat p"
  proof (intro impI, elim conjE)
    assume s: "AbstractEnergySystem L = spec_AbstractEnergySystem"
      and b: "create_hhes_ar L p d f w = Inr (es, w') \<or> create_hhes_basic L em p d f w = Inr (es, w')"
      and c: "c \<in> set (nodes es)" and a: "a \<in> set (declared_series c)"
    from b obtain u bs sk so tr st tf gc
      where aes: "AbstractEnergySystem L u bs sk so tr st tf gc = Inr es"
        and len: "length tf = nat p"
    proof (elim disjE)
      assume "create_hhes_ar L p d f w = Inr (es, w')"
      from hhes_ar_container[OF this] show ?thesis
        by (elim exE conjE) (rule that, assumption, erule date_range_length)
    next
      assume "create_hhes_basic L em p d f w = Inr (es, w')"
      from hhes_basic_container[OF this] show ?thesis
        by (elim exE conjE) (rule that, assumption, erule date_range_length)
    qed
    from aes have "spec_AbstractEnergySystem u bs sk so tr st tf gc = Inr es" by (simp only: s)
    from ok[OF this c a] len show "length (timeframe es) = nat p \<and> length a = nat p" by simp
  qed
  have c4: "AbstractEnergySystem L = spec_AbstractEnergySystem
      \<and> create_zero_costs_es L d f w = Inr (es, w')
      \<and> c \<in> set (nodes es) \<and> a \<in> set (declared_series c)
     \<longrightarrow> length (timeframe es) = 4 \<and> length a = 4"
  proof (intro impI, elim conjE)
    assume s: "AbstractEnergySystem L = spec_AbstractEnergySystem"
      and b: "create_zero_costs_es L d f w = Inr (es, w')"
      and c: "c \<in> set (nodes es)" and a: "a \<in> set (declared_series c)"
    from zero_costs_container[OF b] obtain u bs sk so tr st tf gc
      where aes: "AbstractEnergySystem L u bs sk so tr st tf gc = Inr es"
        and dr: "date_range ''7/13/1990'' 4 = Inr tf"
      by (elim exE conjE)
    from date_range_length[OF dr] have "length tf = 4" by simp
    moreover from aes have "spec_AbstractEnergySystem u bs sk so tr st tf gc = Inr es"
      by (simp only: s)
    ultimately show "length (timeframe es) = 4 \<and> length a = 4" using ok[OF _ c a] by simp
  qed
  from c1 c2 c3 c4 show ?thesis by (intro conjI)
qed

theorem series_length_is_timeframe_length_witness:
  "(\<exists>es c. create_hhes_basic tessif_spec 99999999999 3 None None three_rows =
            Inr (es, three_rows\<lparr>written := [(None, ''hhes_basic.tsf'', es)]\<rparr>)
      \<and> c \<in> set (nodes es) \<and> [Num 3, Num 0, Num 6] \<in> set (declared_series c)
      \<and> length (timeframe es) = nat 3 \<and> length [Num 3, Num 0, Num 6] = nat 3)
   \<and> create_hhes_basic tessif_spec 99999999999 2 None None three_rows = Inl DataShapeError
   \<and> projr (uncapped_renewable tessif_spec)
        \<in> set ([] @ [projr (uncapped_renewable tessif_spec)] @ [] @ [] @ [])
   \<and> [Num 1, Num 2, Num 3, Num 1]
        \<in> set (declared_series (projr (uncapped_renewable tessif_spec)))
   \<and> length [Num 1, Num 2, Num 3, Num 1] \<noteq> length [(''7/13/1990'', 0::nat), (''7/13/1990'', 1)]
   \<and> (\<exists>e. spec_AbstractEnergySystem (Some ''Zero Costs Example'') [] []
          [projr (uncapped_renewable tessif_spec)]
          [] [] [(''7/13/1990'', 0), (''7/13/1990'', 1)] [(''emissions'', VNum (Num 8))] = Inl e)"
proof -
  obtain es where es:
    "create_hhes_basic tessif_spec 99999999999 3 None None three_rows =
       Inr (es, three_rows\<lparr>written := [(None, ''hhes_basic.tsf'', es)]\<rparr>)"
    and series: "concat (map declared_series (nodes es)) =
         [[Num 3, Num 0, Num 6], [Num 3, Num 0, Num 6], [Num 5, Num 7, Num 6],
          [Num 5, Num 7, Num 6], [Num 1000, Num 1200, Num 900], [Num 1000, Num 1200, Num 900]]"
    using hhes_basic_three_rows by (elim exE conjE)
  have "[Num 3, Num 0, Num 6] \<in> set (concat (map declared_series (nodes es)))"
    by (simp add: series)
  then obtain c where c: "c \<in> set (nodes es)" "[Num 3, Num 0, Num 6] \<in> set (declared_series c)"
    by auto
  have hyp3:
    "AbstractEnergySystem tessif_spec = spec_AbstractEnergySystem
     \<and> (create_hhes_ar tessif_spec 3 None None three_rows =
        Inr (es, three_rows\<lparr>written := [(None, ''hhes_basic.tsf'', es)]\<rparr>)
      \<or> create_hhes_basic tessif_spec 99999999999 3 None None three_rows =
        Inr (es, three_rows\<lparr>written := [(None, ''hhes_basic.tsf'', es)]\<rparr>))
     \<and> c \<in> set (nodes es) \<and> [Num 3, Num 0, Num 6] \<in> set (declared_series c)"
    using es c tessif_spec_fields(2) by (intro conjI disjI2)
  have third: "length (timeframe es) = nat 3 \<and> length [Num 3, Num 0, Num 6] = nat 3"
    by (rule series_length_is_timeframe_length[where es = es and c = c and L = tessif_spec
        and a = "[Num 3, Num 0, Num 6]" and em = 99999999999 and p = 3 and d = None and f = None
        and w = three_rows and w' = "three_rows\<lparr>written := [(None, ''hhes_basic.tsf'', es)]\<rparr>",
        THEN conjunct2, THEN conjunct2, THEN conjunct1, THEN mp, OF hyp3])
  have A: "\<exists>es c. create_hhes_basic tessif_spec 99999999999 3 None None three_rows =
            Inr (es, three_rows\<lparr>written := [(None, ''hhes_basic.tsf'', es)]\<rparr>)
      \<and> c \<in> set (nodes es) \<and> [Num 3, Num 0, Num 6] \<in> set (declared_series c)
      \<and> length (timeframe es) = nat 3 \<and> length [Num 3, Num 0, Num 6] = nat 3"
    using es c third by (intro exI[of _ es] exI[of _ c] conjI) simp_all
  have m1: "projr (uncapped_renewable tessif_spec)
        \<in> set ([] @ [projr (uncapped_renewable tessif_spec)] @ [] @ [] @ [])"
    by simp
  have m3: "length [Num 1, Num 2, Num 3, Num 1]
      \<noteq> length [(''7/13/1990'', 0::nat), (''7/13/1990'', 1)]"
    by simp
  have hyp2: "projr (uncapped_renewable tessif_spec)
        \<in> set ([] @ [projr (uncapped_renewable tessif_spec)] @ [] @ [] @ [])
     \<and> [Num 1, Num 2, Num 3, Num 1]
        \<in> set (declared_series (projr (uncapped_renewable tessif_spec)))
     \<and> length [Num 1, Num 2, Num 3, Num 1]
        \<noteq> length [(''7/13/1990'', 0::nat), (''7/13/1990'', 1)]"
    using m1 uncapped_renewable_series m3 by (intro conjI)
  have second: "\<exists>e. spec_AbstractEnergySystem (Some ''Zero Costs Example'') [] []
          [projr (uncapped_renewable tessif_spec)] [] []
          [(''7/13/1990'', 0), (''7/13/1990'', 1)]
          [(''emissions'', VNum (Num 8))] = Inl e"
    by (rule series_length_is_timeframe_length[where c = "projr (uncapped_renewable tessif_spec)"
        and a = "[Num 1, Num 2, Num 3, Num 1]" and bs = "[]"
        and so = "[projr (uncapped_renewable tessif_spec)]"
        and sk = "[]" and tr = "[]" and st = "[]"
        and tf = "[(''7/13/1990'', 0), (''7/13/1990'', 1)]",
        THEN conjunct2, THEN conjunct1, THEN mp, OF hyp2])
  from A hhes_basic_period_2 m1 uncapped_renewable_series m3 second show ?thesis
    by (intro conjI)
qed

section \<open>Determinism\<close>

lemma read_csv_cong: "files w1 n = files w2 n \<Longrightarrow> read_csv w1 n = read_csv w2 n"
  by (simp add: read_csv_def)

lemma hhes_ar_system_cong:
  assumes "files w1 ''solar_HH_2019.csv'' = files w2 ''solar_HH_2019.csv''"
    and "files w1 ''wind_HH_2019.csv'' = files w2 ''wind_HH_2019.csv''"
    and "files w1 ''el_demand_HH_2019.csv'' = files w2 ''el_demand_HH_2019.csv''"
    and "files w1 ''th_demand_HH_2019.csv'' = files w2 ''th_demand_HH_2019.csv''"
  shows "hhes_ar_system L p w1 = hhes_ar_system L p w2"
  unfolding hhes_ar_system_def
  by (simp only: read_csv_cong[OF assms(1)] read_csv_cong[OF assms(2)]
      read_csv_cong[OF assms(3)] read_csv_cong[OF assms(4)])

lemma hhes_basic_system_cong:
  assumes "files w1 ''solar_HH_2019.csv'' = files w2 ''solar_HH_2019.csv''"
    and "files w1 ''wind_HH_2019.csv'' = files w2 ''wind_HH_2019.csv''"
    and "files w1 ''el_demand_HH_2019.csv'' = files w2 ''el_demand_HH_2019.csv''"
  shows "hhes_basic_system L em p f w1 = hhes_basic_system L em p f w2"
  unfolding hhes_basic_system_def hhes_basic_arrays_def
  by (simp only: read_csv_cong[OF assms(1)] read_csv_cong[OF assms(2)]
      read_csv_cong[OF assms(3)])

lemma zero_costs_outcome:
  "map_sum id fst (create_zero_costs_es L d f w1) = map_sum id fst (create_zero_costs_es L d f w2)"
  by (simp add: create_zero_costs_es_def map_sum_bnd)

text \<open>
  C5. Two calls of a builder with the same arguments, in two worlds that hold the same
  load profile files, construct the same system or fail with the same error; when the
  two worlds also agree on whether the storage accepts writes, the two calls end the same
  way: with the same error or with equal systems. The rest of the world (objects written
  before, other files, the state of numpy's random generator, which only \<^verbatim>\<open>norm\<close> and
  the module-level \<^verbatim>\<open>RANDTS\<close> draw from) is not read. \<^verbatim>\<open>create_zero_costs_es\<close> reads
  nothing of the world.
\<close>

theorem builders_deterministic:
  "(files w1 ''solar_HH_2019.csv'' = files w2 ''solar_HH_2019.csv''
      \<and> files w1 ''wind_HH_2019.csv'' = files w2 ''wind_HH_2019.csv''
      \<and> files w1 ''el_demand_HH_2019.csv'' = files w2 ''el_demand_HH_2019.csv''
      \<and> files w1 ''th_demand_HH_2019.csv'' = files w2 ''th_demand_HH_2019.csv''
     \<longrightarrow> hhes_ar_system L p w1 = hhes_ar_system L p w2
       \<and> hhes_basic_system L em p f w1 = hhes_basic_system L em p f w2
       \<and> (dump L = spec_dump \<and> read_only w1 = read_only w2
          \<longrightarrow> map_sum id fst (create_hhes_ar L p d f w1)
              = map_sum id fst (create_hhes_ar L p d f w2)
            \<and> map_sum id fst (create_hhes_basic L em p d f w1)
              = map_sum id fst (create_hhes_basic L em p d f w2)))
   \<and> map_sum id fst (create_zero_costs_es L d f w1)
      = map_sum id fst (create_zero_costs_es L d f w2)"
proof -
  have hh: "hhes_ar_system L p w1 = hhes_ar_system L p w2
       \<and> hhes_basic_system L em p f w1 = hhes_basic_system L em p f w2
       \<and> (dump L = spec_dump \<and> read_only w1 = read_only w2
          \<longrightarrow> map_sum id fst (create_hhes_ar L p d f w1)
              = map_sum id fst (create_hhes_ar L p d f w2)
            \<and> map_sum id fst (create_hhes_basic L em p d f w1)
              = map_sum id fst (create_hhes_basic L em p d f w2))"
    if a: "files w1 ''solar_HH_2019.csv'' = files w2 ''solar_HH_2019.csv''"
      "files w1 ''wind_HH_2019.csv'' = files w2 ''wind_HH_2019.csv''"
      "files w1 ''el_demand_HH_2019.csv'' = files w2 ''el_demand_HH_2019.csv''"
      "files w1 ''th_demand_HH_2019.csv'' = files w2 ''th_demand_HH_2019.csv''"
  proof (intro conjI impI)
    show "hhes_ar_system L p w1 = hhes_ar_system L p w2"
      by (rule hhes_ar_system_cong[OF a])
    show "hhes_basic_system L em p f w1 = hhes_basic_system L em p f w2"
      by (rule hhes_basic_system_cong[OF a(1,2,3)])
  next
    assume "dump L = spec_dump \<and> read_only w1 = read_only w2"
    then have s: "dump L = spec_dump" and ro: "read_only w1 = read_only w2" by simp_all
    show "map_sum id fst (create_hhes_ar L p d f w1)
        = map_sum id fst (create_hhes_ar L p d f w2)"
      unfolding create_hhes_ar_def map_sum_bnd store_outcome[OF s]
      by (simp only: hhes_ar_system_cong[OF a] ro)
  next
    assume "dump L = spec_dump \<and> read_only w1 = read_only w2"
    then have s: "dump L = spec_dump" and ro: "read_only w1 = read_only w2" by simp_all
    show "map_sum id fst (create_hhes_basic L em p d f w1)
          = map_sum id fst (create_hhes_basic L em p d f w2)"
      unfolding create_hhes_basic_def map_sum_bnd store_outcome[OF s]
      by (simp only: hhes_basic_system_cong[OF a(1,2,3)] ro)
  qed
  have c1: "files w1 ''solar_HH_2019.csv'' = files w2 ''solar_HH_2019.csv''
      \<and> files w1 ''wind_HH_2019.csv'' = files w2 ''wind_HH_2019.csv''
      \<and> files w1 ''el_demand_HH_2019.csv'' = files w2 ''el_demand_HH_2019.csv''
      \<and> files w1 ''th_demand_HH_2019.csv'' = files w2 ''th_demand_HH_2019.csv''
     \<longrightarrow> hhes_ar_system L p w1 = hhes_ar_system L p w2
       \<and> hhes_basic_system L em p f w1 = hhes_basic_system L em p f w2
       \<and> (dump L = spec_dump \<and> read_only w1 = read_only w2
          \<longrightarrow> map_sum id fst (create_hhes_ar L p d f w1)
              = map_sum id fst (create_hhes_ar L p d f w2)
            \<and> map_sum id fst (create_hhes_basic L em p d f w1)
              = map_sum id fst (create_hhes_basic L em p d f w2))"
  proof (intro impI, elim conjE)
    assume "files w1 ''solar_HH_2019.csv'' = files w2 ''solar_HH_2019.csv''"
      "files w1 ''wind_HH_2019.csv'' = files w2 ''wind_HH_2019.csv''"
      "files w1 ''el_demand_HH_2019.csv'' = files w2 ''el_demand_HH_2019.csv''"
      "files w1 ''th_demand_HH_2019.csv'' = files w2 ''th_demand_HH_2019.csv''"
    from hh[OF this] show "hhes_ar_system L p w1 = hhes_ar_system L p w2
       \<and> hhes_basic_system L em p f w1 = hhes_basic_system L em p f w2
       \<and> (dump L = spec_dump \<and> read_only w1 = read_only w2
          \<longrightarrow> map_sum id fst (create_hhes_ar L p d f w1)
              = map_sum id fst (create_hhes_ar L p d f w2)
            \<and> map_sum id fst (create_hhes_basic L em p d f w1)
              = map_sum id fst (create_hhes_basic L em p d f w2))" .
  qed
  from c1 zero_costs_outcome[of L d f w1 w2] show ?thesis by (intro conjI)
qed

theorem builders_deterministic_witness:
  "files three_rows ''solar_HH_2019.csv'' = files three_rows_later ''solar_HH_2019.csv''
   \<and> files three_rows ''wind_HH_2019.csv'' = files three_rows_later ''wind_HH_2019.csv''
   \<and> files three_rows ''el_demand_HH_2019.csv'' = files three_rows_later ''el_demand_HH_2019.csv''
   \<and> files three_rows ''th_demand_HH_2019.csv'' = files three_rows_later ''th_demand_HH_2019.csv''
   \<and> read_only three_rows = read_only three_rows_later
   \<and> rng_state three_rows \<noteq> rng_state three_rows_later
   \<and> written three_rows \<noteq> written three_rows_later
   \<and> files three_rows ''notes.csv'' \<noteq> files three_rows_later ''notes.csv''
   \<and> (\<exists>es. map_sum id fst (create_hhes_basic tessif_spec 99999999999 3 None None three_rows)
              = Inr es
         \<and> map_sum id fst (create_hhes_basic tessif_spec 99999999999 3 None None three_rows_later)
              = Inr es)
   \<and> (\<exists>es. map_sum id fst (create_hhes_ar tessif_unchecked 3 (Some ''out'') None three_rows)
              = Inr es
         \<and> map_sum id fst (create_hhes_ar tessif_unchecked 3 (Some ''out'') None three_rows_later)
              = Inr es)
   \<and> map_sum id fst (create_hhes_ar tessif_spec 3 (Some ''out'') None three_rows_later)
       = Inl ConfigurationError"
proof -
  have h: "files three_rows ''solar_HH_2019.csv'' = files three_rows_later ''solar_HH_2019.csv''
   \<and> files three_rows ''wind_HH_2019.csv'' = files three_rows_later ''wind_HH_2019.csv''
   \<and> files three_rows ''el_demand_HH_2019.csv'' = files three_rows_later ''el_demand_HH_2019.csv''
   \<and> files three_rows ''th_demand_HH_2019.csv'' = files three_rows_later ''th_demand_HH_2019.csv''"
    by (simp add: three_rows_def three_rows_later_def)
  have ro: "read_only three_rows = read_only three_rows_later"
    by (simp add: three_rows_def three_rows_later_def)
  have other: "rng_state three_rows \<noteq> rng_state three_rows_later"
    "written three_rows \<noteq> written three_rows_later"
    "files three_rows ''notes.csv'' \<noteq> files three_rows_later ''notes.csv''"
    by (simp_all add: three_rows_def three_rows_later_def)
  have hs: "dump tessif_spec = spec_dump \<and> read_only three_rows = read_only three_rows_later"
    using ro by (simp add: tessif_spec_fields)
  have hu: "dump tessif_unchecked = spec_dump \<and> read_only three_rows = read_only three_rows_later"
    using ro by (simp add: tessif_unchecked_fields)
  note S = builders_deterministic[where ?w1.0 = three_rows and ?w2.0 = three_rows_later
      and L = tessif_spec and p = 3 and d = None and f = None and em = 99999999999,
      THEN conjunct1, THEN mp, OF h, THEN conjunct2, THEN conjunct2, THEN mp, OF hs]
  note S' = builders_deterministic[where ?w1.0 = three_rows and ?w2.0 = three_rows_later
      and L = tessif_spec and p = 3 and d = "Some ''out''" and f = None and em = 99999999999,
      THEN conjunct1, THEN mp, OF h, THEN conjunct2, THEN conjunct2, THEN mp, OF hs]
  note U = builders_deterministic[where ?w1.0 = three_rows and ?w2.0 = three_rows_later
      and L = tessif_unchecked and p = 3 and d = "Some ''out''" and f = None
      and em = 99999999999,
      THEN conjunct1, THEN mp, OF h, THEN conjunct2, THEN conjunct2, THEN mp, OF hu]
  obtain es where "create_hhes_basic tessif_spec 99999999999 3 None None three_rows =
           Inr (es, three_rows\<lparr>written := [(None, ''hhes_basic.tsf'', es)]\<rparr>)"
    using hhes_basic_three_rows by (elim exE conjE)
  then have b1: "map_sum id fst (create_hhes_basic tessif_spec 99999999999 3 None None three_rows)
      = Inr es"
    by simp
  with S have b2:
    "map_sum id fst (create_hhes_basic tessif_spec 99999999999 3 None None three_rows_later)
      = Inr es"
    by simp
  obtain es' where "create_hhes_ar tessif_unchecked 3 (Some ''out'') None three_rows =
           Inr (es', three_rows\<lparr>written := [(Some ''out'', ''hhes.tsf'', es')]\<rparr>)"
    using hhes_ar_unchecked_three_rows by (elim exE conjE)
  then have a1: "map_sum id fst (create_hhes_ar tessif_unchecked 3 (Some ''out'') None three_rows)
      = Inr es'"
    by simp
  with U have a2:
    "map_sum id fst (create_hhes_ar tessif_unchecked 3 (Some ''out'') None three_rows_later)
      = Inr es'"
    by simp
  have a3: "map_sum id fst (create_hhes_ar tessif_spec 3 (Some ''out'') None three_rows_later)
       = Inl ConfigurationError"
    using S' by (simp add: hhes_ar_spec_three_rows)
  have B: "\<exists>es. map_sum id fst (create_hhes_basic tessif_spec 99999999999 3 None None three_rows)
              = Inr es
         \<and> map_sum id fst (create_hhes_basic tessif_spec 99999999999 3 None None three_rows_later)
              = Inr es"
    using b1 b2 by (intro exI[of _ es] conjI)
  have A: "\<exists>es. map_sum id fst (create_hhes_ar tessif_unchecked 3 (Some ''out'') None three_rows)
              = Inr es
         \<and> map_sum id fst (create_hhes_ar tessif_unchecked 3 (Some ''out'') None three_rows_later)
              = Inr es"
    using a1 a2 by (intro exI[of _ es'] conjI)
  from h ro other B A a3 show ?thesis by (intro conjI) simp_all
qed

section \<open>The label of the basic Hamburg example\<close>

lemma hhes_basic_uid:
  assumes c: "AbstractEnergySystem L = spec_AbstractEnergySystem
              \<or> AbstractEnergySystem L = store_system"
    and r: "create_hhes_basic L em p d f w = Inr (es, w')"
  shows "uid es = f"
proof -
  from hhes_basic_container[OF r] obtain bs sk so tr st tf gc
    where aes: "AbstractEnergySystem L f bs sk so tr st tf gc = Inr es" by (elim exE conjE)
  from c show "uid es = f"
  proof
    assume "AbstractEnergySystem L = spec_AbstractEnergySystem"
    with aes have "spec_AbstractEnergySystem f bs sk so tr st tf gc = Inr es" by simp
    from spec_AbstractEnergySystem_Inr(1)[OF this] show ?thesis by simp
  next
    assume "AbstractEnergySystem L = store_system"
    with aes have "store_system f bs sk so tr st tf gc = Inr es" by simp
    then show ?thesis by (rule store_system_Inr)
  qed
qed

text \<open>
  C6. \<^verbatim>\<open>create_hhes_basic\<close> hands \<^verbatim>\<open>uid=filename\<close> to the container before the default
  file name is set, so with a container that keeps the uid it is given (the one of the
  specification, or the one that checks nothing) the system it returns carries the
  \<^verbatim>\<open>filename\<close> argument as its uid: with the argument left at \<^verbatim>\<open>None\<close> the system has no
  label at all.
\<close>

theorem create_hhes_basic_uid_is_filename:
  "(AbstractEnergySystem L = spec_AbstractEnergySystem \<or> AbstractEnergySystem L = store_system)
   \<and> create_hhes_basic L em p d f w = Inr (es, w') \<longrightarrow> uid es = f"
  by (intro impI, elim conjE) (rule hhes_basic_uid)

theorem create_hhes_basic_uid_is_filename_witness:
  "\<exists>es w'. create_hhes_basic tessif_spec 99999999999 3 None None three_rows = Inr (es, w')
     \<and> uid es = None"
proof -
  obtain es where es: "create_hhes_basic tessif_spec 99999999999 3 None None three_rows =
           Inr (es, three_rows\<lparr>written := [(None, ''hhes_basic.tsf'', es)]\<rparr>)"
    using hhes_basic_three_rows by (elim exE conjE)
  have h: "(AbstractEnergySystem tessif_spec = spec_AbstractEnergySystem
            \<or> AbstractEnergySystem tessif_spec = store_system)
     \<and> create_hhes_basic tessif_spec 99999999999 3 None None three_rows =
           Inr (es, three_rows\<lparr>written := [(None, ''hhes_basic.tsf'', es)]\<rparr>)"
    using es by (simp add: tessif_spec_fields)
  from create_hhes_basic_uid_is_filename[THEN mp, OF h] have "uid es = None" .
  with es show ?thesis by (intro exI conjI)
qed

section \<open>The store step\<close>

lemma zero_costs_world: "create_zero_costs_es L d f w = Inr (es, w') \<Longrightarrow> w' = w"
  unfolding create_zero_costs_es_def bnd_Inr_iff by auto

lemma store_dump:
  "store L dflt explicit_es d f w = Inr (es, w') \<Longrightarrow>
   es = explicit_es \<and> dump L explicit_es d (filename_or dflt f) w = Inr w'"
  by (auto simp: store_def bnd_Inr_iff)

text \<open>
  C7. A builder returns the object the container constructed, unchanged, and the world
  after it is the one \<^verbatim>\<open>dump\<close> leaves, called once with that same object. With the
  \<^verbatim>\<open>dump\<close> of the specification the only effect on the world is the one entry appended
  to the storage, holding that object; the files, the earlier entries and the random
  generator stay as they were. \<^verbatim>\<open>create_zero_costs_es\<close> has no effect at all.
\<close>

theorem builder_returns_constructed_object:
  "(dump L = spec_dump \<and> create_hhes_basic L em p d f w = Inr (es, w')
      \<longrightarrow> hhes_basic_system L em p f w = Inr es
        \<and> w' = w\<lparr>written := written w @ [(d, filename_or ''hhes_basic.tsf'' f, es)]\<rparr>)
   \<and> (dump L = spec_dump \<longrightarrow>
       create_hhes_ar L p d f w =
         bnd (hhes_ar_system L p w) (\<lambda>explicit_es.
           if read_only w then Inl IOError
           else Inr (explicit_es,
                     w\<lparr>written := written w @ [(d, filename_or ''hhes.tsf'' f, explicit_es)]\<rparr>)))
   \<and> (dump L = spec_dump \<and> store L dflt explicit_es d f w = Inr (es, w')
      \<longrightarrow> es = explicit_es
        \<and> w' = w\<lparr>written := written w @ [(d, filename_or dflt f, explicit_es)]\<rparr>)
   \<and> (create_zero_costs_es L d f w = Inr (es, w') \<longrightarrow> w' = w)
   \<and> (create_hhes_basic L em p d f w = Inr (es, w')
      \<longrightarrow> hhes_basic_system L em p f w = Inr es
        \<and> dump L es d (filename_or ''hhes_basic.tsf'' f) w = Inr w')
   \<and> (create_hhes_ar L p d f w = Inr (es, w')
      \<longrightarrow> hhes_ar_system L p w = Inr es
        \<and> dump L es d (filename_or ''hhes.tsf'' f) w = Inr w')"
proof -
  have g1: "hhes_basic_system L em p f w = Inr es
        \<and> dump L es d (filename_or ''hhes_basic.tsf'' f) w = Inr w'"
    if "create_hhes_basic L em p d f w = Inr (es, w')"
  proof -
    from that obtain e0 where e0: "hhes_basic_system L em p f w = Inr e0"
      and st: "store L ''hhes_basic.tsf'' e0 d f w = Inr (es, w')"
      unfolding create_hhes_basic_def bnd_Inr_iff by (elim exE conjE)
    from store_dump[OF st] e0 show ?thesis by simp
  qed
  have g2: "hhes_ar_system L p w = Inr es
        \<and> dump L es d (filename_or ''hhes.tsf'' f) w = Inr w'"
    if "create_hhes_ar L p d f w = Inr (es, w')"
  proof -
    from that obtain e0 where e0: "hhes_ar_system L p w = Inr e0"
      and st: "store L ''hhes.tsf'' e0 d f w = Inr (es, w')"
      unfolding create_hhes_ar_def bnd_Inr_iff by (elim exE conjE)
    from store_dump[OF st] e0 show ?thesis by simp
  qed
  have c1: "dump L = spec_dump \<and> create_hhes_basic L em p d f w = Inr (es, w')
      \<longrightarrow> hhes_basic_system L em p f w = Inr es
        \<and> w' = w\<lparr>written := written w @ [(d, filename_or ''hhes_basic.tsf'' f, es)]\<rparr>"
  proof (intro impI, elim conjE)
    assume s: "dump L = spec_dump" and r: "create_hhes_basic L em p d f w = Inr (es, w')"
    from r obtain e0 where e0: "hhes_basic_system L em p f w = Inr e0"
      and st: "store L ''hhes_basic.tsf'' e0 d f w = Inr (es, w')"
      unfolding create_hhes_basic_def bnd_Inr_iff by (elim exE conjE)
    from store_Inr[OF s st] e0
    show "hhes_basic_system L em p f w = Inr es
        \<and> w' = w\<lparr>written := written w @ [(d, filename_or ''hhes_basic.tsf'' f, es)]\<rparr>"
      by simp
  qed
  have c2: "dump L = spec_dump \<longrightarrow>
       create_hhes_ar L p d f w =
         bnd (hhes_ar_system L p w) (\<lambda>explicit_es.
           if read_only w then Inl IOError
           else Inr (explicit_es,
                     w\<lparr>written := written w @ [(d, filename_or ''hhes.tsf'' f, explicit_es)]\<rparr>))"
  proof
    assume s: "dump L = spec_dump"
    show "create_hhes_ar L p d f w =
         bnd (hhes_ar_system L p w) (\<lambda>explicit_es.
           if read_only w then Inl IOError
           else Inr (explicit_es,
                     w\<lparr>written := written w @ [(d, filename_or ''hhes.tsf'' f, explicit_es)]\<rparr>))"
      by (simp only: create_hhes_ar_def store_eq[OF s])
  qed
  have c3: "dump L = spec_dump \<and> store L dflt explicit_es d f w = Inr (es, w')
      \<longrightarrow> es = explicit_es
        \<and> w' = w\<lparr>written := written w @ [(d, filename_or dflt f, explicit_es)]\<rparr>"
    by (intro impI, elim conjE) (rule store_Inr)
  have c4: "create_zero_costs_es L d f w = Inr (es, w') \<longrightarrow> w' = w"
    by (rule impI) (erule zero_costs_world)
  have c5: "create_hhes_basic L em p d f w = Inr (es, w')
      \<longrightarrow> hhes_basic_system L em p f w = Inr es
        \<and> dump L es d (filename_or ''hhes_basic.tsf'' f) w = Inr w'"
    by (rule impI) (erule g1)
  have c6: "create_hhes_ar L p d f w = Inr (es, w')
      \<longrightarrow> hhes_ar_system L p w = Inr es
        \<and> dump L es d (filename_or ''hhes.tsf'' f) w = Inr w'"
    by (rule impI) (erule g2)
  from c1 c2 c3 c4 c5 c6 show ?thesis by (intro conjI)
qed

lemma hhes_basic_mine:
  "\<exists>r. create_hhes_basic tessif_spec 99999999999 3 (Some ''out'') (Some ''mine.tsf'')
         three_rows_later = Inr r"
  by (simp add: basic_defs three_rows_def three_rows_later_def numpy_defs tessif_spec_fields
      ctor_defs bnd_Inl bnd_Inr container_defs upt_rec)

theorem builder_returns_constructed_object_witness:
  "(\<exists>es. create_hhes_basic tessif_spec 99999999999 3 (Some ''out'') (Some ''mine.tsf'')
            three_rows_later
          = Inr (es, three_rows_later\<lparr>written := written three_rows_later
                                          @ [(Some ''out'', ''mine.tsf'', es)]\<rparr>)
     \<and> hhes_basic_system tessif_spec 99999999999 3 (Some ''mine.tsf'') three_rows_later = Inr es)
   \<and> (\<exists>es. create_hhes_ar tessif_unchecked 3 (Some ''out'') None three_rows
          = Inr (es, three_rows\<lparr>written := [(Some ''out'', ''hhes.tsf'', es)]\<rparr>)
     \<and> hhes_ar_system tessif_unchecked 3 three_rows = Inr es
     \<and> dump tessif_unchecked es (Some ''out'') (filename_or ''hhes.tsf'' None) three_rows
          = Inr (three_rows\<lparr>written := [(Some ''out'', ''hhes.tsf'', es)]\<rparr>))"
proof -
  obtain es w' where r:
    "create_hhes_basic tessif_spec 99999999999 3 (Some ''out'') (Some ''mine.tsf'')
       three_rows_later = Inr (es, w')"
    using hhes_basic_mine by (metis surj_pair)
  have h: "dump tessif_spec = spec_dump
     \<and> create_hhes_basic tessif_spec 99999999999 3 (Some ''out'') (Some ''mine.tsf'')
       three_rows_later = Inr (es, w')"
    using r by (simp add: tessif_spec_fields)
  note T = builder_returns_constructed_object[where L = tessif_spec and em = 99999999999
      and p = 3 and d = "Some ''out''" and f = "Some ''mine.tsf''" and w = three_rows_later
      and es = es and w' = w', THEN conjunct1, THEN mp, OF h]
  have A: "\<exists>es. create_hhes_basic tessif_spec 99999999999 3 (Some ''out'') (Some ''mine.tsf'')
            three_rows_later
          = Inr (es, three_rows_later\<lparr>written := written three_rows_later
                                          @ [(Some ''out'', ''mine.tsf'', es)]\<rparr>)
     \<and> hhes_basic_system tessif_spec 99999999999 3 (Some ''mine.tsf'') three_rows_later = Inr es"
    using T r by (intro exI[of _ es]) (simp add: filename_or_def)
  obtain es2 where r2: "create_hhes_ar tessif_unchecked 3 (Some ''out'') None three_rows =
           Inr (es2, three_rows\<lparr>written := [(Some ''out'', ''hhes.tsf'', es2)]\<rparr>)"
    using hhes_ar_unchecked_three_rows by (elim exE conjE)
  note T2 = builder_returns_constructed_object[where L = tessif_unchecked
      and p = 3 and d = "Some ''out''" and f = None and w = three_rows
      and es = es2 and w' = "three_rows\<lparr>written := [(Some ''out'', ''hhes.tsf'', es2)]\<rparr>",
      THEN conjunct2, THEN conjunct2, THEN conjunct2, THEN conjunct2, THEN conjunct2,
      THEN mp, OF r2]
  have B: "\<exists>es. create_hhes_ar tessif_unchecked 3 (Some ''out'') None three_rows
          = Inr (es, three_rows\<lparr>written := [(Some ''out'', ''hhes.tsf'', es)]\<rparr>)
     \<and> hhes_ar_system tessif_unchecked 3 three_rows = Inr es
     \<and> dump tessif_unchecked es (Some ''out'') (filename_or ''hhes.tsf'' None) three_rows
          = Inr (three_rows\<lparr>written := [(Some ''out'', ''hhes.tsf'', es)]\<rparr>)"
    using T2 r2 by (intro exI[of _ es2] conjI) simp_all
  from A B show ?thesis by (intro conjI)
qed

section \<open>The default file name\<close>

text \<open>
  C8. When the caller gives no file name (\<^verbatim>\<open>None\<close>, or the empty string),
  \<^verbatim>\<open>create_hhes_ar\<close> hands the system it constructed to \<^verbatim>\<open>dump\<close> with the file name
  \<^verbatim>\<open>hhes.tsf\<close> and \<^verbatim>\<open>create_hhes_basic\<close> with \<^verbatim>\<open>hhes_basic.tsf\<close>, and with the directory the
  caller gave (\<^verbatim>\<open>None\<close> stands for the framework's default directory). With the \<^verbatim>\<open>dump\<close>
  of the specification and a storage that accepts the write, the system is then stored
  under that name.
\<close>

theorem default_filename:
  "(f = None \<or> f = Some [] \<longrightarrow>
     create_hhes_ar L p d f w =
       bnd (hhes_ar_system L p w) (\<lambda>explicit_es.
       bnd (dump L explicit_es d ''hhes.tsf'' w) (\<lambda>w'. Inr (explicit_es, w')))
   \<and> create_hhes_basic L em p d f w =
       bnd (hhes_basic_system L em p f w) (\<lambda>explicit_es.
       bnd (dump L explicit_es d ''hhes_basic.tsf'' w) (\<lambda>w'. Inr (explicit_es, w'))))
   \<and> ((f = None \<or> f = Some []) \<and> dump L = spec_dump \<and> \<not> read_only w \<longrightarrow>
     create_hhes_ar L p d f w =
       bnd (hhes_ar_system L p w) (\<lambda>explicit_es.
         Inr (explicit_es, w\<lparr>written := written w @ [(d, ''hhes.tsf'', explicit_es)]\<rparr>))
   \<and> create_hhes_basic L em p d f w =
       bnd (hhes_basic_system L em p f w) (\<lambda>explicit_es.
         Inr (explicit_es, w\<lparr>written := written w @ [(d, ''hhes_basic.tsf'', explicit_es)]\<rparr>)))"
proof -
  have n: "filename_or dflt f = dflt" if "f = None \<or> f = Some []" for dflt
    using that by (auto simp: filename_or_def)
  have c1: "f = None \<or> f = Some [] \<longrightarrow>
     create_hhes_ar L p d f w =
       bnd (hhes_ar_system L p w) (\<lambda>explicit_es.
       bnd (dump L explicit_es d ''hhes.tsf'' w) (\<lambda>w'. Inr (explicit_es, w')))
   \<and> create_hhes_basic L em p d f w =
       bnd (hhes_basic_system L em p f w) (\<lambda>explicit_es.
       bnd (dump L explicit_es d ''hhes_basic.tsf'' w) (\<lambda>w'. Inr (explicit_es, w')))"
  proof
    assume f: "f = None \<or> f = Some []"
    show "create_hhes_ar L p d f w =
       bnd (hhes_ar_system L p w) (\<lambda>explicit_es.
       bnd (dump L explicit_es d ''hhes.tsf'' w) (\<lambda>w'. Inr (explicit_es, w')))
   \<and> create_hhes_basic L em p d f w =
       bnd (hhes_basic_system L em p f w) (\<lambda>explicit_es.
       bnd (dump L explicit_es d ''hhes_basic.tsf'' w) (\<lambda>w'. Inr (explicit_es, w')))"
      by (simp only: create_hhes_ar_def create_hhes_basic_def store_def n[OF f])
  qed
  have c2: "(f = None \<or> f = Some []) \<and> dump L = spec_dump \<and> \<not> read_only w \<longrightarrow>
     create_hhes_ar L p d f w =
       bnd (hhes_ar_system L p w) (\<lambda>explicit_es.
         Inr (explicit_es, w\<lparr>written := written w @ [(d, ''hhes.tsf'', explicit_es)]\<rparr>))
   \<and> create_hhes_basic L em p d f w =
       bnd (hhes_basic_system L em p f w) (\<lambda>explicit_es.
         Inr (explicit_es, w\<lparr>written := written w @ [(d, ''hhes_basic.tsf'', explicit_es)]\<rparr>))"
  proof (intro impI, elim conjE)
    assume f: "f = None \<or> f = Some []" and s: "dump L = spec_dump" and w: "\<not> read_only w"
    show "create_hhes_ar L p d f w =
       bnd (hhes_ar_system L p w) (\<lambda>explicit_es.
         Inr (explicit_es, w\<lparr>written := written w @ [(d, ''hhes.tsf'', explicit_es)]\<rparr>))
   \<and> create_hhes_basic L em p d f w =
       bnd (hhes_basic_system L em p f w) (\<lambda>explicit_es.
         Inr (explicit_es, w\<lparr>written := written w @ [(d, ''hhes_basic.tsf'', explicit_es)]\<rparr>))"
      using w by (simp add: create_hhes_ar_def create_hhes_basic_def store_eq[OF s] n[OF f])
  qed
  from c1 c2 show ?thesis by (intro conjI)
qed

theorem default_filename_witness:
  "(\<exists>es. hhes_ar_system tessif_unchecked 3 three_rows = Inr es
         \<and> create_hhes_ar tessif_unchecked 3 (Some ''out'') None three_rows =
             Inr (es, three_rows\<lparr>written := written three_rows
                                    @ [(Some ''out'', ''hhes.tsf'', es)]\<rparr>)
         \<and> create_hhes_ar tessif_unchecked 3 (Some ''out'') (Some []) three_rows =
             Inr (es, three_rows\<lparr>written := written three_rows
                                    @ [(Some ''out'', ''hhes.tsf'', es)]\<rparr>))
   \<and> (\<exists>es. hhes_basic_system tessif_spec 99999999999 3 None three_rows = Inr es
         \<and> create_hhes_basic tessif_spec 99999999999 3 (Some ''out'') None three_rows =
             Inr (es, three_rows\<lparr>written := written three_rows
                                    @ [(Some ''out'', ''hhes_basic.tsf'', es)]\<rparr>))"
proof -
  have h: "(None = (None :: string option) \<or> None = Some [])
      \<and> dump tessif_spec = spec_dump \<and> \<not> read_only three_rows"
    by (simp add: three_rows_def tessif_spec_fields)
  have hu: "(None = (None :: string option) \<or> None = Some [])
      \<and> dump tessif_unchecked = spec_dump \<and> \<not> read_only three_rows"
    by (simp add: three_rows_def tessif_unchecked_fields)
  have he: "(Some [] = (None :: string option) \<or> Some [] = Some ([] :: string))
      \<and> dump tessif_unchecked = spec_dump \<and> \<not> read_only three_rows"
    by (simp add: three_rows_def tessif_unchecked_fields)
  obtain es where es: "hhes_basic_system tessif_spec 99999999999 3 None three_rows = Inr es"
    using hhes_basic_system_three_rows by (elim exE)
  note T = default_filename[where L = tessif_spec and f = None and w = three_rows
      and em = 99999999999 and p = 3 and d = "Some ''out''",
      THEN conjunct2, THEN mp, OF h, THEN conjunct2]
  have b: "create_hhes_basic tessif_spec 99999999999 3 (Some ''out'') None three_rows =
             Inr (es, three_rows\<lparr>written := written three_rows
                                    @ [(Some ''out'', ''hhes_basic.tsf'', es)]\<rparr>)"
    by (simp only: T es bnd_Inr)
  obtain es2 where es2: "hhes_ar_system tessif_unchecked 3 three_rows = Inr es2"
    using hhes_ar_system_unchecked_three_rows by (elim exE)
  note U = default_filename[where L = tessif_unchecked and f = None and w = three_rows
      and p = 3 and d = "Some ''out''",
      THEN conjunct2, THEN mp, OF hu, THEN conjunct1]
  note V = default_filename[where L = tessif_unchecked and f = "Some []" and w = three_rows
      and p = 3 and d = "Some ''out''",
      THEN conjunct2, THEN mp, OF he, THEN conjunct1]
  have a: "create_hhes_ar tessif_unchecked 3 (Some ''out'') None three_rows =
             Inr (es2, three_rows\<lparr>written := written three_rows
                                    @ [(Some ''out'', ''hhes.tsf'', es2)]\<rparr>)"
    by (simp only: U es2 bnd_Inr)
  have a': "create_hhes_ar tessif_unchecked 3 (Some ''out'') (Some []) three_rows =
             Inr (es2, three_rows\<lparr>written := written three_rows
                                    @ [(Some ''out'', ''hhes.tsf'', es2)]\<rparr>)"
    by (simp only: V es2 bnd_Inr)
  have A: "\<exists>es. hhes_ar_system tessif_unchecked 3 three_rows = Inr es
         \<and> create_hhes_ar tessif_unchecked 3 (Some ''out'') None three_rows =
             Inr (es, three_rows\<lparr>written := written three_rows
                                    @ [(Some ''out'', ''hhes.tsf'', es)]\<rparr>)
         \<and> create_hhes_ar tessif_unchecked 3 (Some ''out'') (Some []) three_rows =
             Inr (es, three_rows\<lparr>written := written three_rows
                                    @ [(Some ''out'', ''hhes.tsf'', es)]\<rparr>)"
    using es2 a a' by (intro exI[of _ es2] conjI)
  have B: "\<exists>es. hhes_basic_system tessif_spec 99999999999 3 None three_rows = Inr es
         \<and> create_hhes_basic tessif_spec 99999999999 3 (Some ''out'') None three_rows =
             Inr (es, three_rows\<lparr>written := written three_rows
                                    @ [(Some ''out'', ''hhes_basic.tsf'', es)]\<rparr>)"
    using es b by (intro exI[of _ es] conjI)
  from A B show ?thesis by (intro conjI)
qed

section \<open>The normalised solar series\<close>

lemma hhes_basic_arrays_Inr:
  "hhes_basic_arrays L p w = Inr a \<Longrightarrow>
   \<exists>pv. read_csv w ''solar_HH_2019.csv'' = Inr pv
     \<and> pv_HH a = slice_to p (values_flatten pv)
     \<and> pv_norm a = pv_HH a
     \<and> np_max (pv_HH a) = Inr (max_pv a)"
  unfolding hhes_basic_arrays_def bnd_Inr_iff by auto

lemma pv_norm_loop_fields:
  assumes "pv_norm_loop L a = Inr a'"
  shows "pv_HH a' = pv_HH a" "max_pv a' = max_pv a"
proof -
  from pv_norm_loop_frame[OF assms] have e: "a' = a\<lparr>pv_norm := pv_norm a'\<rparr>" .
  have "pv_HH (a\<lparr>pv_norm := pv_norm a'\<rparr>) = pv_HH a" by simp
  with e show "pv_HH a' = pv_HH a" by simp
  have "max_pv (a\<lparr>pv_norm := pv_norm a'\<rparr>) = max_pv a" by simp
  with e show "max_pv a' = max_pv a" by simp
qed

text \<open>What a step stores: the product in a float64 array, its integer part in an int64 one.\<close>

lemma setitem_at:
  "setitem a i v = Inr n \<Longrightarrow>
   (dtype a = Float64 \<longrightarrow> vals n ! i = v) \<and> (dtype a = Int64 \<longrightarrow> to_int64 v = Inr (vals n ! i))"
  by (auto simp: setitem_def bnd_Inr_iff split: if_splits dtype.splits)

lemma pv_norm_step_inv:
  assumes "pv_norm_step L i a = Inr a'"
  shows "pv_HH a' = pv_HH a" "max_pv a' = max_pv a" "dtype (pv_norm a') = dtype (pv_norm a)"
    "length (vals (pv_norm a')) = length (vals (pv_norm a))"
  using assms
  by (auto simp: pv_norm_step_def bnd_Inr_iff setitem_dtype setitem_length split: if_splits)

lemma pv_norm_step_at:
  "pv_norm_step L i a = Inr a' \<Longrightarrow> vals (pv_HH a) ! i \<noteq> Num 0 \<Longrightarrow>
   (dtype (pv_norm a) = Float64
      \<longrightarrow> vals (pv_norm a') ! i = mul_recip L (vals (pv_HH a) ! i) (max_pv a))
   \<and> (dtype (pv_norm a) = Int64
      \<longrightarrow> to_int64 (mul_recip L (vals (pv_HH a) ! i) (max_pv a)) = Inr (vals (pv_norm a') ! i))"
  by (auto simp: pv_norm_step_def bnd_Inr_iff dest: setitem_at)

lemma pv_norm_range_at:
  "pv_norm_range L ks a = Inr a' \<Longrightarrow> distinct ks \<Longrightarrow> j \<in> set ks \<Longrightarrow>
   vals (pv_HH a) ! j \<noteq> Num 0 \<Longrightarrow>
   (dtype (pv_norm a) = Float64
      \<longrightarrow> vals (pv_norm a') ! j = mul_recip L (vals (pv_HH a) ! j) (max_pv a))
   \<and> (dtype (pv_norm a) = Int64
      \<longrightarrow> to_int64 (mul_recip L (vals (pv_HH a) ! j) (max_pv a)) = Inr (vals (pv_norm a') ! j))"
proof (induction ks arbitrary: a)
  case Nil
  then show ?case by simp
next
  case (Cons i ks)
  from Cons.prems(1) obtain a1 where s: "pv_norm_step L i a = Inr a1"
    and r: "pv_norm_range L ks a1 = Inr a'"
    by (auto simp: bnd_Inr_iff)
  note inv = pv_norm_step_inv[OF s]
  show ?case
  proof (cases "j = i")
    case True
    with Cons.prems(2) have "j \<notin> set ks" by simp
    then have "vals (pv_norm a') ! j = vals (pv_norm a1) ! j"
      using pv_norm_range_other[OF r] by blast
    with pv_norm_step_at[OF s] Cons.prems(4) True show ?thesis by simp
  next
    case False
    with Cons.prems(2,3) have d: "distinct ks" and m: "j \<in> set ks" by simp_all
    from Cons.prems(4) have nz: "vals (pv_HH a1) ! j \<noteq> Num 0" by (simp add: inv)
    from Cons.IH[OF r d m nz] show ?thesis by (simp add: inv)
  qed
qed

lemma pv_norm_loop_at:
  assumes "pv_norm_loop L a = Inr a'" "Suc j < length (vals (pv_HH a))"
    "vals (pv_HH a) ! j \<noteq> Num 0"
  shows "(dtype (pv_norm a) = Float64
      \<longrightarrow> vals (pv_norm a') ! j = mul_recip L (vals (pv_HH a) ! j) (max_pv a))
   \<and> (dtype (pv_norm a) = Int64
      \<longrightarrow> to_int64 (mul_recip L (vals (pv_HH a) ! j) (max_pv a)) = Inr (vals (pv_norm a') ! j))"
proof (rule pv_norm_range_at[OF assms(1)[unfolded pv_norm_loop_def] _ _ assms(3)])
  show "distinct [0..<length (vals (pv_HH a)) - 1]" by simp
  show "j \<in> set [0..<length (vals (pv_HH a)) - 1]" using assms(2) by simp
qed

text \<open>On a float64 array the loop never fails.\<close>

lemma pv_norm_range_float:
  "dtype (pv_norm a) = Float64 \<Longrightarrow> \<forall>i\<in>set ks. i < length (vals (pv_norm a)) \<Longrightarrow>
   \<exists>a'. pv_norm_range L ks a = Inr a'"
proof (induction ks arbitrary: a)
  case Nil
  then show ?case by simp
next
  case (Cons i ks)
  from Cons.prems have "\<exists>a1. pv_norm_step L i a = Inr a1"
    by (simp add: pv_norm_step_def setitem_def bnd_Inr)
  then obtain a1 where s: "pv_norm_step L i a = Inr a1" ..
  note inv = pv_norm_step_inv[OF s]
  have "\<exists>a'. pv_norm_range L ks a1 = Inr a'"
    using Cons.prems by (intro Cons.IH) (simp_all add: inv)
  then show ?case by (simp add: s bnd_Inr)
qed

lemma pv_norm_loop_float:
  "dtype (pv_norm a) = Float64 \<Longrightarrow> pv_norm a = pv_HH a \<Longrightarrow> \<exists>a'. pv_norm_loop L a = Inr a'"
  unfolding pv_norm_loop_def by (rule pv_norm_range_float) auto

lemma hhes_basic_system_float:
  assumes "\<forall>pv. read_csv w ''solar_HH_2019.csv'' = Inr pv \<longrightarrow> dtype (values_flatten pv) = Float64"
  shows "hhes_basic_system L em p f w =
     bnd (date_range ''1/1/2019'' p) (\<lambda>tf.
     bnd (hhes_basic_arrays L p w) (\<lambda>a. hhes_basic_components L em f tf (a\<lparr>pv_norm := x\<rparr>)))"
proof -
  have "bnd (pv_norm_loop L a) (\<lambda>a'. hhes_basic_components L em f tf (a\<lparr>pv_norm := x\<rparr>))
      = hhes_basic_components L em f tf (a\<lparr>pv_norm := x\<rparr>)"
    if "hhes_basic_arrays L p w = Inr a" for a tf
  proof -
    from hhes_basic_arrays_Inr[OF that] obtain pv
      where pv: "read_csv w ''solar_HH_2019.csv'' = Inr pv"
        and a: "pv_HH a = slice_to p (values_flatten pv)" "pv_norm a = pv_HH a"
      by (elim exE conjE)
    from assms pv have "dtype (values_flatten pv) = Float64" by simp
    then have "dtype (pv_norm a) = Float64" by (simp add: a slice_to_def)
    from pv_norm_loop_float[OF this a(2)] obtain a' where "pv_norm_loop L a = Inr a'" ..
    then show ?thesis by (simp add: bnd_Inr)
  qed
  then show ?thesis
    by (subst hhes_basic_system_frame[where x = x]) (intro bnd_cong_Inr)
qed

lemma hhes_basic_system_returns:
  assumes "hhes_basic_system L em p f w = Inr es"
  shows "bnd (date_range ''1/1/2019'' p) (\<lambda>tf.
     bnd (hhes_basic_arrays L p w) (\<lambda>a. hhes_basic_components L em f tf (a\<lparr>pv_norm := x\<rparr>)))
     = Inr es"
proof -
  from assms obtain tf a a' where tf: "date_range ''1/1/2019'' p = Inr tf"
    and a: "hhes_basic_arrays L p w = Inr a" and l: "pv_norm_loop L a = Inr a'"
    and c: "hhes_basic_components L em f tf a' = Inr es"
    unfolding hhes_basic_system_def bnd_Inr_iff by (elim exE conjE)
  from c have "hhes_basic_components L em f tf (a\<lparr>pv_norm := x\<rparr>) = Inr es"
    by (simp only: hhes_basic_components_after_loop[OF l, where x = x])
  then show ?thesis by (simp add: tf a bnd_Inr)
qed

lemma SOLAR_options:
  "construct L = make_component \<or> construct L = store_component \<Longrightarrow>
   map_sum id (\<lambda>c. (map_of (options c) ''timeseries'', map_of (options c) ''flow_rates''))
        (SOLAR L a) =
      Inr (Some (VDict [(''electricity'',
                  VMinMax (VArr (vals (pv_HH a))) (VArr (vals (pv_HH a))))]),
           Some (VDict [(''electricity'', VMinMax (VNum (Num 0)) (VNum (max_pv a)))]))"
  by (auto simp: SOLAR_def ctor_defs)

text \<open>
  C10. The normalised solar series \<^verbatim>\<open>pv_norm\<close> of \<^verbatim>\<open>create_hhes_basic\<close> is used by no
  component: the components are built from the arrays with anything at all (\<open>x\<close> below)
  in the place of \<^verbatim>\<open>pv_norm\<close>, so a system the builder returns is the one the builder
  without the loop returns. The loop writes to \<^verbatim>\<open>pv_norm\<close> only; it leaves the zero
  entries and the last entry as they were and stores the product
  \<^verbatim>\<open>pv_HH[i] * (1 / max_pv)\<close> in every other one (its integer part when the solar file
  holds integers). The solar source takes its time series and its flow rates from
  \<^verbatim>\<open>pv_HH\<close> and \<^verbatim>\<open>max_pv\<close>, and \<^verbatim>\<open>pv_HH\<close> is the raw slice of the solar file. The loop
  decides only whether the builder returns: on a float64 profile it never fails, and then
  the builder is the builder without the loop; on an integer profile the assignment can
  raise.
\<close>

theorem pv_norm_is_unused:
  "hhes_basic_system L em p f w =
     bnd (date_range ''1/1/2019'' p) (\<lambda>tf.
     bnd (hhes_basic_arrays L p w) (\<lambda>a.
     bnd (pv_norm_loop L a) (\<lambda>a'. hhes_basic_components L em f tf (a\<lparr>pv_norm := x\<rparr>))))
   \<and> (create_hhes_basic L em p d f w = Inr (es, w')
      \<longrightarrow> bnd (bnd (date_range ''1/1/2019'' p) (\<lambda>tf.
               bnd (hhes_basic_arrays L p w) (\<lambda>a.
               hhes_basic_components L em f tf (a\<lparr>pv_norm := x\<rparr>))))
            (\<lambda>explicit_es. store L ''hhes_basic.tsf'' explicit_es d f w) = Inr (es, w'))
   \<and> ((\<forall>pv. read_csv w ''solar_HH_2019.csv'' = Inr pv \<longrightarrow> dtype (values_flatten pv) = Float64)
      \<longrightarrow> create_hhes_basic L em p d f w =
          bnd (bnd (date_range ''1/1/2019'' p) (\<lambda>tf.
               bnd (hhes_basic_arrays L p w) (\<lambda>a.
               hhes_basic_components L em f tf (a\<lparr>pv_norm := x\<rparr>))))
            (\<lambda>explicit_es. store L ''hhes_basic.tsf'' explicit_es d f w))
   \<and> (pv_norm_loop L a = Inr a'
      \<longrightarrow> pv_HH a' = pv_HH a \<and> max_pv a' = max_pv a \<and> a' = a\<lparr>pv_norm := pv_norm a'\<rparr>)
   \<and> (pv_norm_loop L a = Inr a'
        \<and> (vals (pv_HH a) ! j = Num 0 \<or> length (vals (pv_HH a)) \<le> Suc j)
      \<longrightarrow> vals (pv_norm a') ! j = vals (pv_norm a) ! j)
   \<and> (pv_norm_loop L a = Inr a' \<and> Suc j < length (vals (pv_HH a))
        \<and> vals (pv_HH a) ! j \<noteq> Num 0
      \<longrightarrow> (dtype (pv_norm a) = Float64
            \<longrightarrow> vals (pv_norm a') ! j = mul_recip L (vals (pv_HH a) ! j) (max_pv a))
        \<and> (dtype (pv_norm a) = Int64
            \<longrightarrow> to_int64 (mul_recip L (vals (pv_HH a) ! j) (max_pv a))
                = Inr (vals (pv_norm a') ! j)))
   \<and> SOLAR L (a\<lparr>pv_norm := x\<rparr>) = SOLAR L a
   \<and> (construct L = make_component \<or> construct L = store_component
      \<longrightarrow> map_sum id
            (\<lambda>c. (map_of (options c) ''timeseries'', map_of (options c) ''flow_rates''))
            (SOLAR L a) =
          Inr (Some (VDict [(''electricity'',
                      VMinMax (VArr (vals (pv_HH a))) (VArr (vals (pv_HH a))))]),
               Some (VDict [(''electricity'', VMinMax (VNum (Num 0)) (VNum (max_pv a)))])))
   \<and> (hhes_basic_arrays L p w = Inr a
      \<longrightarrow> (\<exists>pv. read_csv w ''solar_HH_2019.csv'' = Inr pv
             \<and> pv_HH a = slice_to p (values_flatten pv)
             \<and> pv_norm a = pv_HH a
             \<and> np_max (pv_HH a) = Inr (max_pv a)))"
proof -
  have c1: "hhes_basic_system L em p f w =
     bnd (date_range ''1/1/2019'' p) (\<lambda>tf.
     bnd (hhes_basic_arrays L p w) (\<lambda>a.
     bnd (pv_norm_loop L a) (\<lambda>a'. hhes_basic_components L em f tf (a\<lparr>pv_norm := x\<rparr>))))"
    by (rule hhes_basic_system_frame)
  have c2: "create_hhes_basic L em p d f w = Inr (es, w')
      \<longrightarrow> bnd (bnd (date_range ''1/1/2019'' p) (\<lambda>tf.
               bnd (hhes_basic_arrays L p w) (\<lambda>a.
               hhes_basic_components L em f tf (a\<lparr>pv_norm := x\<rparr>))))
            (\<lambda>explicit_es. store L ''hhes_basic.tsf'' explicit_es d f w) = Inr (es, w')"
  proof
    assume "create_hhes_basic L em p d f w = Inr (es, w')"
    then obtain e0 where e0: "hhes_basic_system L em p f w = Inr e0"
      and st: "store L ''hhes_basic.tsf'' e0 d f w = Inr (es, w')"
      unfolding create_hhes_basic_def bnd_Inr_iff by (elim exE conjE)
    show "bnd (bnd (date_range ''1/1/2019'' p) (\<lambda>tf.
               bnd (hhes_basic_arrays L p w) (\<lambda>a.
               hhes_basic_components L em f tf (a\<lparr>pv_norm := x\<rparr>))))
            (\<lambda>explicit_es. store L ''hhes_basic.tsf'' explicit_es d f w) = Inr (es, w')"
      by (simp only: hhes_basic_system_returns[OF e0] bnd_Inr st)
  qed
  have c3: "(\<forall>pv. read_csv w ''solar_HH_2019.csv'' = Inr pv
                \<longrightarrow> dtype (values_flatten pv) = Float64)
      \<longrightarrow> create_hhes_basic L em p d f w =
          bnd (bnd (date_range ''1/1/2019'' p) (\<lambda>tf.
               bnd (hhes_basic_arrays L p w) (\<lambda>a.
               hhes_basic_components L em f tf (a\<lparr>pv_norm := x\<rparr>))))
            (\<lambda>explicit_es. store L ''hhes_basic.tsf'' explicit_es d f w)"
  proof
    assume "\<forall>pv. read_csv w ''solar_HH_2019.csv'' = Inr pv
                \<longrightarrow> dtype (values_flatten pv) = Float64"
    from hhes_basic_system_float[OF this]
    show "create_hhes_basic L em p d f w =
          bnd (bnd (date_range ''1/1/2019'' p) (\<lambda>tf.
               bnd (hhes_basic_arrays L p w) (\<lambda>a.
               hhes_basic_components L em f tf (a\<lparr>pv_norm := x\<rparr>))))
            (\<lambda>explicit_es. store L ''hhes_basic.tsf'' explicit_es d f w)"
      unfolding create_hhes_basic_def by (simp only:)
  qed
  have c4: "pv_norm_loop L a = Inr a'
      \<longrightarrow> pv_HH a' = pv_HH a \<and> max_pv a' = max_pv a \<and> a' = a\<lparr>pv_norm := pv_norm a'\<rparr>"
  proof
    assume l: "pv_norm_loop L a = Inr a'"
    from pv_norm_loop_fields[OF l] pv_norm_loop_frame[OF l]
    show "pv_HH a' = pv_HH a \<and> max_pv a' = max_pv a \<and> a' = a\<lparr>pv_norm := pv_norm a'\<rparr>"
      by (intro conjI)
  qed
  have c5: "pv_norm_loop L a = Inr a'
        \<and> (vals (pv_HH a) ! j = Num 0 \<or> length (vals (pv_HH a)) \<le> Suc j)
      \<longrightarrow> vals (pv_norm a') ! j = vals (pv_norm a) ! j"
    by (intro impI, elim conjE) (rule pv_norm_loop_other)
  have c6: "pv_norm_loop L a = Inr a' \<and> Suc j < length (vals (pv_HH a))
        \<and> vals (pv_HH a) ! j \<noteq> Num 0
      \<longrightarrow> (dtype (pv_norm a) = Float64
            \<longrightarrow> vals (pv_norm a') ! j = mul_recip L (vals (pv_HH a) ! j) (max_pv a))
        \<and> (dtype (pv_norm a) = Int64
            \<longrightarrow> to_int64 (mul_recip L (vals (pv_HH a) ! j) (max_pv a))
                = Inr (vals (pv_norm a') ! j))"
    by (intro impI, elim conjE) (rule pv_norm_loop_at)
  have c7: "SOLAR L (a\<lparr>pv_norm := x\<rparr>) = SOLAR L a"
    by (rule components_ignore_pv_norm)
  have c8: "construct L = make_component \<or> construct L = store_component
      \<longrightarrow> map_sum id
            (\<lambda>c. (map_of (options c) ''timeseries'', map_of (options c) ''flow_rates''))
            (SOLAR L a) =
          Inr (Some (VDict [(''electricity'',
                      VMinMax (VArr (vals (pv_HH a))) (VArr (vals (pv_HH a))))]),
               Some (VDict [(''electricity'', VMinMax (VNum (Num 0)) (VNum (max_pv a)))]))"
    by (rule impI) (erule SOLAR_options)
  have c9: "hhes_basic_arrays L p w = Inr a
      \<longrightarrow> (\<exists>pv. read_csv w ''solar_HH_2019.csv'' = Inr pv
             \<and> pv_HH a = slice_to p (values_flatten pv)
             \<and> pv_norm a = pv_HH a
             \<and> np_max (pv_HH a) = Inr (max_pv a))"
    by (rule impI) (erule hhes_basic_arrays_Inr)
  from c1 c2 c3 c4 c5 c6 c7 c8 c9 show ?thesis by (intro conjI)
qed

lemma three_rows_solar_float:
  "map_sum id (\<lambda>pv. dtype (values_flatten pv)) (read_csv three_rows ''solar_HH_2019.csv'')
     = Inr Float64"
  by (simp add: three_rows_def numpy_defs)

lemma hhes_basic_no_loop_negative:
  "\<exists>r. bnd (bnd (date_range ''1/1/2019'' 3) (\<lambda>tf.
            bnd (hhes_basic_arrays tessif_spec 3 three_rows_negative) (\<lambda>a.
            hhes_basic_components tessif_spec 99999999999 None tf
              (a\<lparr>pv_norm := \<lparr>dtype = Float64, vals = []\<rparr>\<rparr>))))
         (\<lambda>explicit_es. store tessif_spec ''hhes_basic.tsf'' explicit_es None None
                          three_rows_negative) = Inr r"
  by (simp add: basic_defs three_rows_negative_def three_rows_def numpy_defs
      tessif_spec_fields ctor_defs bnd_Inl bnd_Inr container_defs upt_rec)

theorem pv_norm_is_unused_witness:
  "map_sum id (\<lambda>pv. dtype (values_flatten pv)) (read_csv three_rows ''solar_HH_2019.csv'')
     = Inr Float64
   \<and> (\<exists>es. create_hhes_basic tessif_spec 99999999999 3 None None three_rows =
            Inr (es, three_rows\<lparr>written := [(None, ''hhes_basic.tsf'', es)]\<rparr>)
        \<and> bnd (bnd (date_range ''1/1/2019'' 3) (\<lambda>tf.
               bnd (hhes_basic_arrays tessif_spec 3 three_rows) (\<lambda>a.
               hhes_basic_components tessif_spec 99999999999 None tf
                 (a\<lparr>pv_norm := \<lparr>dtype = Float64, vals = []\<rparr>\<rparr>))))
            (\<lambda>explicit_es. store tessif_spec ''hhes_basic.tsf'' explicit_es None None three_rows)
          = Inr (es, three_rows\<lparr>written := [(None, ''hhes_basic.tsf'', es)]\<rparr>))
   \<and> (\<exists>a a'. hhes_basic_arrays tessif_spec 3 three_rows = Inr a
        \<and> pv_norm_loop tessif_spec a = Inr a'
        \<and> pv_HH a = \<lparr>dtype = Float64, vals = [Num 3, Num 0, Num 6]\<rparr>
        \<and> pv_HH a' = pv_HH a
        \<and> vals (pv_norm a') ! 0 = Num (1 / 2)
        \<and> vals (pv_norm a') ! 1 = Num 0
        \<and> vals (pv_norm a') ! 2 = Num 6)
   \<and> (\<exists>a a'. hhes_basic_arrays tessif_spec 3 three_rows_int = Inr a
        \<and> pv_norm_loop tessif_spec a = Inr a'
        \<and> pv_HH a = \<lparr>dtype = Int64, vals = [Num 3, Num 0, Num 6]\<rparr>
        \<and> to_int64 (mul_recip tessif_spec (Num 3) (Num 6)) = Inr (vals (pv_norm a') ! 0)
        \<and> pv_norm a' = \<lparr>dtype = Int64, vals = [Num 0, Num 0, Num 6]\<rparr>)
   \<and> create_hhes_basic tessif_spec 99999999999 3 None None three_rows_negative
       = Inl OverflowError
   \<and> (\<exists>r. bnd (bnd (date_range ''1/1/2019'' 3) (\<lambda>tf.
               bnd (hhes_basic_arrays tessif_spec 3 three_rows_negative) (\<lambda>a.
               hhes_basic_components tessif_spec 99999999999 None tf
                 (a\<lparr>pv_norm := \<lparr>dtype = Float64, vals = []\<rparr>\<rparr>))))
            (\<lambda>explicit_es. store tessif_spec ''hhes_basic.tsf'' explicit_es None None
                             three_rows_negative) = Inr r)"
proof -
  obtain es where es: "create_hhes_basic tessif_spec 99999999999 3 None None three_rows =
           Inr (es, three_rows\<lparr>written := [(None, ''hhes_basic.tsf'', es)]\<rparr>)"
    using hhes_basic_three_rows by (elim exE conjE)
  have nl: "bnd (bnd (date_range ''1/1/2019'' 3) (\<lambda>tf.
               bnd (hhes_basic_arrays tessif_spec 3 three_rows) (\<lambda>a.
               hhes_basic_components tessif_spec 99999999999 None tf
                 (a\<lparr>pv_norm := \<lparr>dtype = Float64, vals = []\<rparr>\<rparr>))))
            (\<lambda>explicit_es. store tessif_spec ''hhes_basic.tsf'' explicit_es None None three_rows)
          = Inr (es, three_rows\<lparr>written := [(None, ''hhes_basic.tsf'', es)]\<rparr>)"
    by (rule pv_norm_is_unused[where L = tessif_spec and em = 99999999999 and p = 3
        and d = None and f = None and w = three_rows and es = es
        and w' = "three_rows\<lparr>written := [(None, ''hhes_basic.tsf'', es)]\<rparr>"
        and x = "\<lparr>dtype = Float64, vals = []\<rparr>",
        THEN conjunct2, THEN conjunct1, THEN mp, OF es])
  have A: "\<exists>es. create_hhes_basic tessif_spec 99999999999 3 None None three_rows =
            Inr (es, three_rows\<lparr>written := [(None, ''hhes_basic.tsf'', es)]\<rparr>)
        \<and> bnd (bnd (date_range ''1/1/2019'' 3) (\<lambda>tf.
               bnd (hhes_basic_arrays tessif_spec 3 three_rows) (\<lambda>a.
               hhes_basic_components tessif_spec 99999999999 None tf
                 (a\<lparr>pv_norm := \<lparr>dtype = Float64, vals = []\<rparr>\<rparr>))))
            (\<lambda>explicit_es. store tessif_spec ''hhes_basic.tsf'' explicit_es None None three_rows)
          = Inr (es, three_rows\<lparr>written := [(None, ''hhes_basic.tsf'', es)]\<rparr>)"
    using es nl by (intro exI[of _ es] conjI)
  let ?a = "projr (hhes_basic_arrays tessif_spec 3 three_rows)"
  have a: "hhes_basic_arrays tessif_spec 3 three_rows = Inr ?a"
    by (simp add: three_rows_arrays)
  have pv: "pv_HH ?a = \<lparr>dtype = Float64, vals = [Num 3, Num 0, Num 6]\<rparr>"
    and nm: "pv_norm ?a = \<lparr>dtype = Float64, vals = [Num 3, Num 0, Num 6]\<rparr>"
    and mx: "max_pv ?a = Num 6"
    by (simp_all add: three_rows_arrays)
  obtain a' where l: "pv_norm_loop tessif_spec ?a = Inr a'"
    using three_rows_loop by (elim exE conjE)
  note T = pv_norm_is_unused[where L = tessif_spec and a = ?a and a' = a']
  have kept: "pv_HH a' = pv_HH ?a"
    using T[THEN conjunct2, THEN conjunct2, THEN conjunct2, THEN conjunct1, THEN mp, OF l]
    by simp
  have h0: "pv_norm_loop tessif_spec ?a = Inr a' \<and> Suc 0 < length (vals (pv_HH ?a))
        \<and> vals (pv_HH ?a) ! 0 \<noteq> Num 0"
    using l by (simp add: pv)
  have h1: "pv_norm_loop tessif_spec ?a = Inr a'
        \<and> (vals (pv_HH ?a) ! 1 = Num 0 \<or> length (vals (pv_HH ?a)) \<le> Suc 1)"
    using l by (simp add: pv)
  have h2: "pv_norm_loop tessif_spec ?a = Inr a'
        \<and> (vals (pv_HH ?a) ! 2 = Num 0 \<or> length (vals (pv_HH ?a)) \<le> Suc 2)"
    using l by (simp add: pv)
  have v0: "vals (pv_norm a') ! 0 = Num (1 / 2)"
    using T[where j = 0, THEN conjunct2, THEN conjunct2, THEN conjunct2, THEN conjunct2,
        THEN conjunct2, THEN conjunct1, THEN mp, OF h0]
    by (simp add: pv nm mx tessif_spec_fields exact_mul_recip_def)
  have v1: "vals (pv_norm a') ! 1 = Num 0"
    using T[where j = 1, THEN conjunct2, THEN conjunct2, THEN conjunct2, THEN conjunct2,
        THEN conjunct1, THEN mp, OF h1]
    by (simp add: nm)
  have v2: "vals (pv_norm a') ! 2 = Num 6"
    using T[where j = 2, THEN conjunct2, THEN conjunct2, THEN conjunct2, THEN conjunct2,
        THEN conjunct1, THEN mp, OF h2]
    by (simp add: nm)
  have B: "\<exists>a a'. hhes_basic_arrays tessif_spec 3 three_rows = Inr a
        \<and> pv_norm_loop tessif_spec a = Inr a'
        \<and> pv_HH a = \<lparr>dtype = Float64, vals = [Num 3, Num 0, Num 6]\<rparr>
        \<and> pv_HH a' = pv_HH a
        \<and> vals (pv_norm a') ! 0 = Num (1 / 2)
        \<and> vals (pv_norm a') ! 1 = Num 0
        \<and> vals (pv_norm a') ! 2 = Num 6"
    using a l pv kept v0 v1 v2 by (intro exI[of _ ?a] exI[of _ a'] conjI)
  obtain b b' where b: "hhes_basic_arrays tessif_spec 3 three_rows_int = Inr b"
    and bpv: "pv_HH b = \<lparr>dtype = Int64, vals = [Num 3, Num 0, Num 6]\<rparr>"
    and bl: "pv_norm_loop tessif_spec b = Inr b'"
    and bn: "pv_norm b' = \<lparr>dtype = Int64, vals = [Num 0, Num 0, Num 6]\<rparr>"
    using three_rows_int_loop by (elim exE conjE)
  from pv_norm_is_unused[where L = tessif_spec and a = b and p = 3 and w = three_rows_int,
      THEN conjunct2, THEN conjunct2, THEN conjunct2, THEN conjunct2, THEN conjunct2,
      THEN conjunct2, THEN conjunct2, THEN conjunct2, THEN mp, OF b]
  obtain t where bnm: "pv_norm b = pv_HH b" and bmx: "np_max (pv_HH b) = Inr (max_pv b)"
    by (elim exE conjE)
  from bmx have bmx': "max_pv b = Num 6" by (simp add: bpv np_max_def)
  have hb: "pv_norm_loop tessif_spec b = Inr b' \<and> Suc 0 < length (vals (pv_HH b))
        \<and> vals (pv_HH b) ! 0 \<noteq> Num 0"
    using bl by (simp add: bpv)
  have t0: "to_int64 (mul_recip tessif_spec (Num 3) (Num 6)) = Inr (vals (pv_norm b') ! 0)"
    using pv_norm_is_unused[where L = tessif_spec and a = b and a' = b' and j = 0,
        THEN conjunct2, THEN conjunct2, THEN conjunct2, THEN conjunct2,
        THEN conjunct2, THEN conjunct1, THEN mp, OF hb]
    by (simp add: bnm bpv bmx')
  have C: "\<exists>a a'. hhes_basic_arrays tessif_spec 3 three_rows_int = Inr a
        \<and> pv_norm_loop tessif_spec a = Inr a'
        \<and> pv_HH a = \<lparr>dtype = Int64, vals = [Num 3, Num 0, Num 6]\<rparr>
        \<and> to_int64 (mul_recip tessif_spec (Num 3) (Num 6)) = Inr (vals (pv_norm a') ! 0)
        \<and> pv_norm a' = \<lparr>dtype = Int64, vals = [Num 0, Num 0, Num 6]\<rparr>"
    using b bl bpv t0 bn by (intro exI[of _ b] exI[of _ b'] conjI)
  from three_rows_solar_float A B C three_rows_negative_overflow hhes_basic_no_loop_negative
  show ?thesis by (intro conjI)
qed

end
